theory Spec2Isabelle
  imports Main
begin

section \<open>Exceptions\<close>

text \<open>
  The exception classes the scripts raise, meet or catch, each with the text that
  \<open>str(e)\<close> gives. \<open>KeyboardInterrupt\<close> is the one class here that is not a subclass
  of \<open>Exception\<close>, so no \<open>except Exception\<close> clause catches it. A function that can
  raise returns \<open>error + 'a\<close>, with \<open>Inl\<close> for the exception that leaves it.
\<close>

datatype error =
    ImportError string
  | JSONDecodeError string
  | NameError string
  | TypeError string
  | AttributeError string
  | KeyError string
  | OSError string
  | ConnectionError string
  | AuthError string
  | KeyboardInterrupt

fun is_Exception :: "error \<Rightarrow> bool" where
  "is_Exception KeyboardInterrupt = False"
| "is_Exception _ = True"

fun is_ImportError :: "error \<Rightarrow> bool" where
  "is_ImportError (ImportError _) = True"
| "is_ImportError _ = False"

fun is_JSONDecodeError :: "error \<Rightarrow> bool" where
  "is_JSONDecodeError (JSONDecodeError _) = True"
| "is_JSONDecodeError _ = False"

fun str_error :: "error \<Rightarrow> string" where
  "str_error (ImportError m) = m"
| "str_error (JSONDecodeError m) = m"
| "str_error (NameError m) = m"
| "str_error (TypeError m) = m"
| "str_error (AttributeError m) = m"
| "str_error (KeyError m) = m"
| "str_error (OSError m) = m"
| "str_error (ConnectionError m) = m"
| "str_error (AuthError m) = m"
| "str_error KeyboardInterrupt = []"

section \<open>Python strings\<close>

text \<open>
  A Python \<open>str\<close> is modelled as a \<open>string\<close>: one \<open>char\<close> per code point, for the
  code points 0..255. The character classes below are those of \<open>str.isspace\<close> and
  \<open>str.isalnum\<close> on that range.
\<close>

definition isspace :: "char \<Rightarrow> bool" where
  "isspace c = (let n = (of_char c :: nat) in
     (9 \<le> n \<and> n \<le> 13) \<or> (28 \<le> n \<and> n \<le> 32) \<or> n = 133 \<or> n = 160)"

definition isalnum :: "char \<Rightarrow> bool" where
  "isalnum c = (let n = (of_char c :: nat) in
     (48 \<le> n \<and> n \<le> 57) \<or> (65 \<le> n \<and> n \<le> 90) \<or> (97 \<le> n \<and> n \<le> 122) \<or>
     n = 170 \<or> n = 178 \<or> n = 179 \<or> n = 181 \<or> n = 185 \<or> n = 186 \<or>
     (188 \<le> n \<and> n \<le> 190) \<or> (192 \<le> n \<and> n \<le> 214) \<or> (216 \<le> n \<and> n \<le> 246) \<or>
     (248 \<le> n \<and> n \<le> 255))"

text \<open>\<open>s.strip()\<close>: leading and trailing whitespace removed.\<close>

definition lstrip :: "string \<Rightarrow> string" where
  "lstrip s = dropWhile isspace s"

definition rstrip :: "string \<Rightarrow> string" where
  "rstrip s = rev (dropWhile isspace (rev s))"

definition strip :: "string \<Rightarrow> string" where
  "strip s = rstrip (lstrip s)"

text \<open>
  Indices are Python's: \<open>int\<close>, a negative one counting from the end, and a slice
  clamped to the string. \<open>s.find(sub, start)\<close> is the lowest index at or after
  \<open>start\<close> where \<open>sub\<close> begins, or \<open>-1\<close>.
\<close>

definition startswith :: "string \<Rightarrow> string \<Rightarrow> bool" where
  "startswith s p = (take (length p) s = p)"

definition clamp_index :: "nat \<Rightarrow> int \<Rightarrow> nat" where
  "clamp_index n i = (if i < 0 then nat (max 0 (int n + i)) else min n (nat i))"

definition py_slice :: "string \<Rightarrow> int \<Rightarrow> int \<Rightarrow> string" where
  "py_slice s i j =
     (let a = clamp_index (length s) i; b = clamp_index (length s) j
      in take (b - a) (drop a s))"

definition slice_from :: "string \<Rightarrow> int \<Rightarrow> string" where
  "slice_from s i = drop (clamp_index (length s) i) s"

definition slice_to :: "string \<Rightarrow> int \<Rightarrow> string" where
  "slice_to s j = take (clamp_index (length s) j) s"

fun find_at :: "string \<Rightarrow> string \<Rightarrow> nat \<Rightarrow> int" where
  "find_at sub [] i = (if sub = [] then int i else - 1)"
| "find_at sub (c # cs) i =
     (if startswith (c # cs) sub then int i else find_at sub cs (Suc i))"

definition py_find :: "string \<Rightarrow> string \<Rightarrow> int \<Rightarrow> int" where
  "py_find s sub start =
     (if int (length s) < start then - 1
      else find_at sub (slice_from s start) (clamp_index (length s) start))"

text \<open>\<open>sub in s\<close>\<close>

definition py_in :: "string \<Rightarrow> string \<Rightarrow> bool" where
  "py_in sub s = (find_at sub s 0 \<noteq> - 1)"

text \<open>\<open>s.split()\<close>: the maximal runs of characters that are not whitespace.\<close>

fun split_ws :: "string \<Rightarrow> string \<Rightarrow> string list" where
  "split_ws cur [] = (if cur = [] then [] else [cur])"
| "split_ws cur (c # cs) =
     (if isspace c then (if cur = [] then split_ws [] cs else cur # split_ws [] cs)
      else split_ws (cur @ [c]) cs)"

definition py_split :: "string \<Rightarrow> string list" where
  "py_split s = split_ws [] s"

text \<open>\<open>s.split('\n')\<close>: the pieces between line feeds, empty ones included.\<close>

fun split_on :: "char \<Rightarrow> string \<Rightarrow> string \<Rightarrow> string list" where
  "split_on d cur [] = [cur]"
| "split_on d cur (c # cs) =
     (if c = d then cur # split_on d [] cs else split_on d (cur @ [c]) cs)"

definition split_lines :: "string \<Rightarrow> string list" where
  "split_lines s = split_on (CHR 0x0A) [] s"

text \<open>\<open>sep.join(xs)\<close>\<close>

fun join :: "string \<Rightarrow> string list \<Rightarrow> string" where
  "join sep [] = []"
| "join sep [x] = x"
| "join sep (x # y # ys) = x @ sep @ join sep (y # ys)"

section \<open>The marker-delimited extraction\<close>

text \<open>
  \<open>NewsBot._extract_section\<close> of \<open>news_bot_clean.py\<close>. The section runs from just
  after the first occurrence of the marker to the first blank line after it; only when
  there is no blank line does the loop over the markers look for the next marker. The
  body has no operation that raises on strings, so the bare \<open>except\<close> is never entered.
\<close>

definition section_markers :: "string list" where
  "section_markers = [''HEADLINE:'', ''LEAD:'', ''BODY:'', ''CONCLUSION:'']"

definition blank_line :: string where
  "blank_line = [CHR 0x0A, CHR 0x0A]"

definition next_marker_step :: "string \<Rightarrow> string \<Rightarrow> int \<Rightarrow> int \<Rightarrow> string \<Rightarrow> int" where
  "next_marker_step content marker start next_marker_pos m =
     (if m \<noteq> marker \<and> py_in m (slice_from content start)
      then (let pos = py_find content m start
            in if pos < next_marker_pos then pos else next_marker_pos)
      else next_marker_pos)"

definition next_marker :: "string \<Rightarrow> string \<Rightarrow> int \<Rightarrow> int" where
  "next_marker content marker start =
     foldl (next_marker_step content marker start) (int (length content)) section_markers"

definition extract_section :: "string \<Rightarrow> string \<Rightarrow> string" where
  "extract_section content marker =
     (if py_in marker content
      then (let start = py_find content marker 0 + int (length marker);
                stop = py_find content blank_line start;
                stop = (if stop = - 1 then next_marker content marker start else stop)
            in strip (py_slice content start stop))
      else [])"

text \<open>
  The vocabulary in which the extraction is specified: \<open>sub\<close> occurs at index \<open>p\<close> of
  \<open>s\<close>; \<open>p\<close> is the first index at or after \<open>start\<close> where it does; and \<open>e\<close> is the
  boundary that ends a section when no blank line does: no marker other than the
  section's own occurs between \<open>start\<close> and \<open>e\<close>, and \<open>e\<close> is the end of the text or an
  index where such a marker occurs. \<open>no_marker_between\<close> is the first half of that:
  no marker other than the section's own begins at an index from \<open>start\<close> up to
  \<open>e\<close>.
\<close>

definition occurs_at :: "string \<Rightarrow> string \<Rightarrow> nat \<Rightarrow> bool" where
  "occurs_at s sub p = (take (length sub) (drop p s) = sub)"

definition first_at :: "string \<Rightarrow> string \<Rightarrow> nat \<Rightarrow> nat \<Rightarrow> bool" where
  "first_at s sub start p =
     (start \<le> p \<and> occurs_at s sub p \<and> (\<forall>q\<in>{start..<p}. \<not> occurs_at s sub q))"

definition occurs_from :: "string \<Rightarrow> string \<Rightarrow> nat \<Rightarrow> bool" where
  "occurs_from s sub start = (\<exists>q\<in>{start..<length s}. occurs_at s sub q)"

definition marker_boundary :: "string \<Rightarrow> string \<Rightarrow> nat \<Rightarrow> nat \<Rightarrow> bool" where
  "marker_boundary content marker start e =
     (start \<le> e \<and> e \<le> length content \<and>
      (\<forall>m\<in>set section_markers. m \<noteq> marker \<longrightarrow>
         (\<forall>q\<in>{start..<e}. \<not> occurs_at content m q)) \<and>
      (e = length content \<or>
       (\<exists>m\<in>set section_markers. m \<noteq> marker \<and> occurs_at content m e)))"

definition no_marker_between :: "string \<Rightarrow> string \<Rightarrow> nat \<Rightarrow> nat \<Rightarrow> bool" where
  "no_marker_between content marker start e =
     (\<forall>m\<in>set section_markers. m \<noteq> marker \<longrightarrow>
        (\<forall>q\<in>{start..<e}. \<not> occurs_at content m q))"

section \<open>Filename derivation\<close>

text \<open>
  The generator expression of \<open>save_article\<close>:
  \<^verbatim>\<open>c for c in title if c.isalnum() or c in (' ', '-', '_')\<close>
\<close>

definition keep_char :: "char \<Rightarrow> bool" where
  "keep_char c = (isalnum c \<or> c = CHR '' '' \<or> c = CHR ''-'' \<or> c = CHR ''_'')"

definition char_filter :: "string \<Rightarrow> string" where
  "char_filter title = filter keep_char title"

text \<open>
  \<open>news_bot_clean.py\<close>, \<open>news_bot_action.py\<close> and
  \<open>clean_functional_news_bot_with_issues_backup.py\<close>:
  \<^verbatim>\<open>safe_title = "".join(c for c in title if ...).strip()[:50]\<close>
\<close>

definition safe_title :: "string \<Rightarrow> string" where
  "safe_title title = take 50 (strip (char_filter title))"

text \<open>
  \<open>news_bot.py\<close>:
  \<^verbatim>\<open>safe_title = "".join(c for c in article['title'] if ...).strip()
  safe_title = safe_title.replace(' ', '_')[:50]\<close>
\<close>

definition replace_space :: "string \<Rightarrow> string" where
  "replace_space s = map (\<lambda>c. if c = CHR '' '' then CHR ''_'' else c) s"

definition safe_title_nb :: "string \<Rightarrow> string" where
  "safe_title_nb title = take 50 (replace_space (strip (char_filter title)))"

section \<open>Values, dictionaries and formatting\<close>

text \<open>
  The scripts pass articles around as dictionaries with string keys. Their values are
  the three kinds the scripts' own dictionary literals hold: a string, an integer (the
  word count) and a list of strings (tags, categories, authors).
\<close>

datatype pyval = PStr string | PInt int | PList "string list"

type_synonym dict = "string \<rightharpoonup> pyval"

text \<open>\<open>d.get(k, default)\<close> and the truth value of an object.\<close>

definition get :: "dict \<Rightarrow> string \<Rightarrow> pyval \<Rightarrow> pyval" where
  "get d k dflt = (case d k of None \<Rightarrow> dflt | Some v \<Rightarrow> v)"

fun truthy :: "pyval \<Rightarrow> bool" where
  "truthy (PStr s) = (s \<noteq> [])"
| "truthy (PInt i) = (i \<noteq> 0)"
| "truthy (PList xs) = (xs \<noteq> [])"

text \<open>\<open>x or y\<close>, for a string \<open>x\<close>.\<close>

definition or_else :: "string \<Rightarrow> pyval \<Rightarrow> pyval" where
  "or_else x y = (if x \<noteq> [] then PStr x else y)"

text \<open>Decimal digits of an integer, as \<open>str\<close> prints them.\<close>

definition digit :: "nat \<Rightarrow> char" where
  "digit n = char_of (48 + n)"

function show_nat :: "nat \<Rightarrow> string" where
  "show_nat n = (if n < 10 then [digit n] else show_nat (n div 10) @ [digit (n mod 10)])"
  by pat_completeness auto
termination
  by (relation "measure (\<lambda>n. n)") auto

definition show_int :: "int \<Rightarrow> string" where
  "show_int i = (if i < 0 then CHR ''-'' # show_nat (nat (- i)) else show_nat (nat i))"

text \<open>
  \<open>repr\<close> of a string, which is how a list prints its elements: single quotes unless
  the string has a single quote and no double quote; the quote and the backslash
  escaped; tab, line feed and carriage return by letter; the other characters that are
  not printable as \<open>\xhh\<close>.
\<close>

definition hex_digit :: "nat \<Rightarrow> char" where
  "hex_digit n = (if n < 10 then char_of (48 + n) else char_of (87 + n))"

definition repr_quote :: "string \<Rightarrow> char" where
  "repr_quote s =
     (if CHR 0x27 \<in> set s \<and> CHR 0x22 \<notin> set s then CHR 0x22 else CHR 0x27)"

definition repr_char :: "char \<Rightarrow> char \<Rightarrow> string" where
  "repr_char q c = (let n = (of_char c :: nat) in
     if c = q \<or> c = CHR 0x5C then [CHR 0x5C, c]
     else if n = 9 then [CHR 0x5C, CHR ''t'']
     else if n = 10 then [CHR 0x5C, CHR ''n'']
     else if n = 13 then [CHR 0x5C, CHR ''r'']
     else if n < 32 \<or> n = 127 \<or> (128 \<le> n \<and> n \<le> 160) \<or> n = 173
       then [CHR 0x5C, CHR ''x'', hex_digit (n div 16), hex_digit (n mod 16)]
     else [c])"

definition py_repr :: "string \<Rightarrow> string" where
  "py_repr s = (let q = repr_quote s in q # concat (map (repr_char q) s) @ [q])"

text \<open>\<open>d[k]\<close>; the text of a \<open>KeyError\<close> is the \<open>repr\<close> of the key.\<close>

definition item :: "dict \<Rightarrow> string \<Rightarrow> error + pyval" where
  "item d k = (case d k of None \<Rightarrow> Inl (KeyError (py_repr k)) | Some v \<Rightarrow> Inr v)"

text \<open>What an f-string puts for \<open>{v}\<close>.\<close>

fun py_str :: "pyval \<Rightarrow> string" where
  "py_str (PStr s) = s"
| "py_str (PInt i) = show_int i"
| "py_str (PList xs) = ''['' @ join '', '' (map py_repr xs) @ '']''"

text \<open>
  \<open>', '.join(v)\<close>: a list of strings is joined, a string is joined character by
  character, an integer is not iterable.
\<close>

fun join_value :: "string \<Rightarrow> pyval \<Rightarrow> error + string" where
  "join_value sep (PList xs) = Inr (join sep xs)"
| "join_value sep (PStr s) = Inr (join sep (map (\<lambda>c. [c]) s))"
| "join_value sep (PInt i) = Inl (TypeError ''can only join an iterable'')"

text \<open>\<open>s.replace(old, new)\<close>, for a non-empty \<open>old\<close>.\<close>

function replace_all :: "string \<Rightarrow> string \<Rightarrow> string \<Rightarrow> string" where
  "replace_all old new [] = []"
| "replace_all old new (c # cs) =
     (if old \<noteq> [] \<and> startswith (c # cs) old
      then new @ replace_all old new (drop (length old) (c # cs))
      else c # replace_all old new cs)"
  by pat_completeness auto
termination
  by (relation "measure (\<lambda>(old, new, s). length s)") auto

text \<open>\<open>s.lower()\<close> on the code points 0..255.\<close>

definition lower_char :: "char \<Rightarrow> char" where
  "lower_char c = (let n = (of_char c :: nat) in
     if (65 \<le> n \<and> n \<le> 90) \<or> (192 \<le> n \<and> n \<le> 214) \<or> (216 \<le> n \<and> n \<le> 222)
     then char_of (n + 32) else c)"

definition lower :: "string \<Rightarrow> string" where
  "lower s = map lower_char s"

section \<open>The outside world\<close>

text \<open>
  What the scripts exchange with their surroundings. The remote services are inputs of
  the model: for every request they either give a result or raise. \<open>search\<close> is the
  EventRegistry query, from building it to the list of article records that the script
  builds from its results; \<open>json_request\<close> is the direct request of the fallback path
  of \<open>news_bot.py\<close>, with the records built from its results; \<open>generate_content\<close> is
  the Gemini call for the prompt that a script builds from an article and a style, up
  to the text of the response; \<open>json_loads\<close> is the JSON parser, which gives an object
  or a value of another type, named by its Python type; \<open>can_write\<close> says whether a file
  can be opened for writing; \<open>init_error\<close> is the exception that constructing the API
  clients raises, if any; \<open>http_post\<close> is the request to the issue tracker, giving the
  status code and the decoded body of the response. The clock is read as the strings
  the scripts format it to, and does not advance during a run. The parameters of a run
  (keyword, style, number of articles) are taken as already read from the command line
  or the environment. Console output is not modelled.
\<close>

record query =
  q_keywords :: "string option"
  q_category :: "string option"
  q_lang :: string
  q_days :: nat
  q_count :: int

datatype json = JObject dict | JOther string

record response =
  status_code :: int
  response_json :: "error + dict"

record env =
  search :: "query \<Rightarrow> error + dict list"
  json_request :: "string \<Rightarrow> int \<Rightarrow> error + dict list"
  generate_content :: "dict \<Rightarrow> string \<Rightarrow> error + string"
  json_loads :: "string \<Rightarrow> error + json"
  can_write :: "string \<Rightarrow> bool"
  init_error :: "error option"
  http_post :: "string \<Rightarrow> error + response"
  getenv :: "string \<Rightarrow> string option"
  now_iso :: string
  now_ymd :: string
  now_stamp :: string
  now_date :: string

text \<open>
  The summary documents that are written as JSON, the contents of a file, and the events
  whose order matters: a call of the script's article generator for a fetched article, a
  sleep of so many seconds, a POST to the given address. The world is the files written
  and the events so far. A function that acts on the world returns its value with the
  new world, or the exception that leaves it with the world at that moment.
\<close>

record report =
  generated_at :: string
  keyword :: string
  total_articles :: nat
  successful_articles :: nat
  failed_articles :: nat
  articles :: "dict list"

record summary_data =
  sd_date :: string
  sd_keyword :: string
  sd_category :: string
  sd_style :: string
  articles_generated :: nat
  sd_files :: "string list"
  sd_articles :: "dict list"

datatype content = Text string | JsonReport report | JsonSummary summary_data

datatype event = Generate dict | Sleep nat | HttpPost string

record world =
  files :: "string \<rightharpoonup> content"
  events :: "event list"

type_synonym 'a result = "(error \<times> world) + ('a \<times> world)"

definition log :: "event \<Rightarrow> world \<Rightarrow> world" where
  "log e w = w\<lparr>events := events w @ [e]\<rparr>"

definition write_file :: "string \<Rightarrow> content \<Rightarrow> world \<Rightarrow> world" where
  "write_file path c w = w\<lparr>files := (files w)(path \<mapsto> c)\<rparr>"

text \<open>How a run ends: \<open>sys.exit(n)\<close> or falling off the end (status 0), or a traceback.\<close>

datatype outcome = Exit int | Uncaught error

text \<open>\<open>k in d\<close>, and the truth value of an optional string (\<open>None\<close> and \<open>""\<close> are false).\<close>

definition has_key :: "dict \<Rightarrow> string \<Rightarrow> bool" where
  "has_key d k = (d k \<noteq> None)"

fun nonempty :: "string option \<Rightarrow> bool" where
  "nonempty None = False"
| "nonempty (Some s) = (s \<noteq> [])"

text \<open>\<open>v[:n]\<close>: a string or a list is cut, an integer cannot be subscripted.\<close>

fun slice_value :: "pyval \<Rightarrow> nat \<Rightarrow> error + pyval" where
  "slice_value (PStr s) n = Inr (PStr (take n s))"
| "slice_value (PList xs) n = Inr (PList (take n xs))"
| "slice_value (PInt i) n = Inl (TypeError '''int' object is not subscriptable'')"

text \<open>
  The filename filter applied to whatever the headline holds: iterating a string gives
  its characters, iterating a list its elements, and an integer is not iterable.
\<close>

definition keep_elem :: "string \<Rightarrow> bool" where
  "keep_elem x = ((x \<noteq> [] \<and> list_all isalnum x) \<or> x = '' '' \<or> x = ''-'' \<or> x = ''_'')"

fun title_filter :: "pyval \<Rightarrow> error + string" where
  "title_filter (PStr s) = Inr (safe_title s)"
| "title_filter (PList xs) = Inr (take 50 (strip (concat (filter keep_elem xs))))"
| "title_filter (PInt i) = Inl (TypeError '''int' object is not iterable'')"

text \<open>
  The filename of a save operation: the one given, or when none (or an empty one) is
  given, the filtered headline with the time stamp.
\<close>

definition derived_filename :: "env \<Rightarrow> dict \<Rightarrow> error + string" where
  "derived_filename env article =
     (case title_filter (get article ''headline'' (PStr ''article'')) of
        Inl e \<Rightarrow> Inl e
      | Inr t \<Rightarrow> Inr (t @ ''_'' @ now_stamp env @ ''.md''))"

definition chosen_filename :: "env \<Rightarrow> dict \<Rightarrow> string option \<Rightarrow> error + string" where
  "chosen_filename env article filename =
     (case filename of
        None \<Rightarrow> derived_filename env article
      | Some f \<Rightarrow> if f = [] then derived_filename env article else Inr f)"

text \<open>\<open>style_prompts.get(style, style_prompts['professional'])\<close>: the style in effect.\<close>

definition effective_style :: "string \<Rightarrow> string" where
  "effective_style style =
     (if style = ''professional'' \<or> style = ''casual'' \<or> style = ''academic''
      then style else ''professional'')"

text \<open>
  The loops that read the search results append a record and stop once the number of
  records has reached \<open>max_articles\<close>.
\<close>

fun collect :: "int \<Rightarrow> int \<Rightarrow> dict list \<Rightarrow> dict list" where
  "collect max_articles count [] = []"
| "collect max_articles count (a # as) =
     a # (if max_articles \<le> count + 1 then [] else collect max_articles (count + 1) as)"

section \<open>\<open>news_bot_clean.py\<close>\<close>

text \<open>
  \<open>NewsBot.fetch_news\<close>. The loop appends, counts, and breaks once the count reaches
  \<open>max_articles\<close>; any \<open>Exception\<close> in the \<open>try\<close> block gives the empty list.
\<close>

definition clean_query :: "string option \<Rightarrow> int \<Rightarrow> query" where
  "clean_query kw max_articles =
     (if nonempty kw
      then \<lparr>q_keywords = kw, q_category = None, q_lang = ''eng'', q_days = 7,
            q_count = max_articles\<rparr>
      else \<lparr>q_keywords = None, q_category = None, q_lang = ''eng'', q_days = 1,
            q_count = max_articles\<rparr>)"

definition clean_fetch_news :: "env \<Rightarrow> string option \<Rightarrow> int \<Rightarrow> error + dict list" where
  "clean_fetch_news env kw max_articles =
     (case search env (clean_query kw max_articles) of
        Inl e \<Rightarrow> if is_Exception e then Inr [] else Inl e
      | Inr found \<Rightarrow> Inr (collect max_articles 0 found))"

text \<open>
  \<open>NewsBot.generate_article\<close>: the prompt cuts the body of the article to 2000
  characters; then the four sections of the response, each with its fallback; and the
  record of a failure when the \<open>try\<close> block raises an \<open>Exception\<close>.
\<close>

definition clean_generate_article :: "env \<Rightarrow> dict \<Rightarrow> string \<Rightarrow> error + dict" where
  "clean_generate_article env news_data style =
     (case (case slice_value (get news_data ''body'' (PStr ''N/A'')) 2000 of
              Inl e \<Rightarrow> Inl e
            | Inr b \<Rightarrow> generate_content env news_data (effective_style style)) of
        Inl e \<Rightarrow>
          if is_Exception e
          then Inr [''error'' \<mapsto> PStr (str_error e),
                    ''original_title'' \<mapsto> get news_data ''title'' (PStr []),
                    ''original_source'' \<mapsto> get news_data ''source'' (PStr [])]
          else Inl e
      | Inr content \<Rightarrow>
          Inr [''headline'' \<mapsto> or_else (extract_section content ''HEADLINE:'')
                                 (get news_data ''title'' (PStr ''Generated Article'')),
               ''lead'' \<mapsto> or_else (extract_section content ''LEAD:'')
                                 (PStr ''Article summary not available''),
               ''body'' \<mapsto> or_else (extract_section content ''BODY:'') (PStr content),
               ''conclusion'' \<mapsto> or_else (extract_section content ''CONCLUSION:'') (PStr []),
               ''original_title'' \<mapsto> get news_data ''title'' (PStr []),
               ''original_source'' \<mapsto> get news_data ''source'' (PStr []),
               ''original_url'' \<mapsto> get news_data ''url'' (PStr []),
               ''original_date'' \<mapsto> get news_data ''date'' (PStr []),
               ''generated_at'' \<mapsto> PStr (now_iso env),
               ''word_count'' \<mapsto> PInt (int (length (py_split content)))])"

text \<open>
  \<open>NewsBot.save_article\<close>. The document is one f-string; the ``Conclusion'' heading is
  part of its fixed text. A file that cannot be opened gives the empty string.
\<close>

definition clean_markdown :: "dict \<Rightarrow> string" where
  "clean_markdown article =
     ''# '' @ py_str (get article ''headline'' (PStr ''Generated Article'')) @
     ''\<newline>\<newline>**Generated:** '' @ py_str (get article ''generated_at'' (PStr ''N/A'')) @
     ''  \<newline>**Original Source:** '' @ py_str (get article ''original_source'' (PStr ''N/A'')) @
     ''  \<newline>**Original URL:** '' @ py_str (get article ''original_url'' (PStr ''N/A'')) @
     ''  \<newline>**Word Count:** '' @ py_str (get article ''word_count'' (PStr ''N/A'')) @
     ''  \<newline>\<newline>---\<newline>\<newline>## Summary\<newline>\<newline>'' @ py_str (get article ''lead'' (PStr ''N/A'')) @
     ''\<newline>\<newline>## Article\<newline>\<newline>'' @ py_str (get article ''body'' (PStr ''N/A'')) @
     ''\<newline>\<newline>## Conclusion\<newline>\<newline>'' @ py_str (get article ''conclusion'' (PStr ''N/A'')) @
     ''\<newline>\<newline>---\<newline>\<newline>*Generated by News Bot using EventRegistry API and Google Gemini AI*\<newline>''"

definition clean_save_article ::
    "env \<Rightarrow> dict \<Rightarrow> string option \<Rightarrow> world \<Rightarrow> string result" where
  "clean_save_article env article filename w =
     (if has_key article ''error'' then Inr ([], w)
      else case chosen_filename env article filename of
             Inl e \<Rightarrow> Inl (e, w)
           | Inr f \<Rightarrow>
               if can_write env f
               then Inr (f, write_file f (Text (clean_markdown article)) w)
               else Inr ([], w))"

text \<open>\<open>NewsBot.create_summary_report\<close>\<close>

definition clean_create_summary_report :: "env \<Rightarrow> dict list \<Rightarrow> string \<Rightarrow> report" where
  "clean_create_summary_report env arts kw =
     \<lparr>generated_at = now_iso env,
      keyword = kw,
      total_articles = length arts,
      successful_articles = length (filter (\<lambda>a. \<not> has_key a ''error'') arts),
      failed_articles = length (filter (\<lambda>a. has_key a ''error'') arts),
      articles = arts\<rparr>"

text \<open>
  \<open>NewsBot.run\<close>. The loop carries the index \<open>i\<close> of \<open>enumerate(news_articles, 1)\<close>, the
  list \<open>generated_articles\<close> and the list \<open>saved_files\<close>; the run returns its report,
  and with it here the list \<open>saved_files\<close> whose length its last line prints.
\<close>

definition clean_article_filename :: "env \<Rightarrow> nat \<Rightarrow> string \<Rightarrow> string" where
  "clean_article_filename env i kw =
     ''article_'' @ show_nat i @ ''_'' @ replace_space kw @ ''_'' @ now_ymd env @ ''.md''"

fun clean_run_loop ::
    "env \<Rightarrow> string \<Rightarrow> string \<Rightarrow> nat \<Rightarrow> dict list \<Rightarrow> dict list \<Rightarrow> string list \<Rightarrow> world
     \<Rightarrow> (dict list \<times> string list) result" where
  "clean_run_loop env kw style i [] generated saved w = Inr ((generated, saved), w)"
| "clean_run_loop env kw style i (news # rest) generated saved w =
     (case clean_generate_article env news style of
        Inl e \<Rightarrow> Inl (e, log (Generate news) w)
      | Inr enhanced \<Rightarrow>
          (case (if \<not> has_key enhanced ''error''
                 then (case clean_save_article env enhanced
                              (Some (clean_article_filename env i kw)) (log (Generate news) w) of
                         Inl ew \<Rightarrow> Inl ew
                       | Inr (filename, w') \<Rightarrow>
                           Inr (if filename \<noteq> [] then saved @ [filename] else saved, w'))
                 else Inr (saved, log (Generate news) w)) of
             Inl ew \<Rightarrow> Inl ew
           | Inr (saved', w') \<Rightarrow>
               clean_run_loop env kw style (Suc i) rest (generated @ [enhanced]) saved'
                 (log (Sleep 2) w')))"

datatype run_result = NoArticlesFound string string | Report report

fun has_error :: "run_result \<Rightarrow> bool" where
  "has_error (NoArticlesFound kw t) = True"
| "has_error (Report r) = False"

definition clean_run ::
    "env \<Rightarrow> string \<Rightarrow> string \<Rightarrow> int \<Rightarrow> world \<Rightarrow> (run_result \<times> string list) result" where
  "clean_run env kw style max_articles w =
     (case clean_fetch_news env (Some kw) max_articles of
        Inl e \<Rightarrow> Inl (e, w)
      | Inr news_articles \<Rightarrow>
          if news_articles = [] then Inr ((NoArticlesFound kw (now_iso env), []), w)
          else (case clean_run_loop env kw style 1 news_articles [] [] w of
                  Inl ew \<Rightarrow> Inl ew
                | Inr ((generated, saved), w') \<Rightarrow>
                    (let r = clean_create_summary_report env generated kw;
                         summary_file = ''summary_'' @ replace_space kw @ ''_'' @ now_ymd env
                                          @ ''.json''
                     in Inr ((Report r, saved),
                             if can_write env summary_file
                             then write_file summary_file (JsonReport r) w' else w'))))"

text \<open>
  \<open>main\<close>: the keys are checked first; \<open>sys.exit(1)\<close> inside the \<open>try\<close> raises
  \<open>SystemExit\<close>, which \<open>except Exception\<close> lets through, and an \<open>Exception\<close> from the run
  exits with 1 as well. The run ends with status 0 otherwise.
\<close>

definition clean_main :: "env \<Rightarrow> string \<Rightarrow> string \<Rightarrow> int \<Rightarrow> world \<Rightarrow> outcome \<times> world" where
  "clean_main env kw style max_articles w =
     (if \<not> nonempty (getenv env ''EVENTREGISTRY_API_KEY'') \<or>
         \<not> nonempty (getenv env ''GOOGLE_API_KEY'')
      then (Exit 1, w)
      else (case init_error env of
              Some e \<Rightarrow> if is_Exception e then (Exit 1, w) else (Uncaught e, w)
            | None \<Rightarrow>
                (case clean_run env kw style max_articles w of
                   Inl (e, w') \<Rightarrow> if is_Exception e then (Exit 1, w') else (Uncaught e, w')
                 | Inr ((result, saved), w') \<Rightarrow>
                     if has_error result then (Exit 1, w') else (Exit 0, w'))))"

section \<open>\<open>news_bot_action.py\<close>\<close>

text \<open>
  \<open>NewsFetcher.fetch_latest_news\<close>: the query has the keyword when one is given, the
  category when it is one of the six known ones, and the last two days; any \<open>Exception\<close>
  gives the empty list.
\<close>

definition category_map :: "string \<Rightarrow> string option" where
  "category_map c =
     (if c = ''technology'' then Some ''dmoz/Computers''
      else if c = ''business'' then Some ''dmoz/Business''
      else if c = ''health'' then Some ''dmoz/Health''
      else if c = ''science'' then Some ''dmoz/Science''
      else if c = ''sports'' then Some ''dmoz/Sports''
      else if c = ''politics'' then Some ''dmoz/Society/Politics''
      else None)"

definition action_query ::
    "string option \<Rightarrow> string option \<Rightarrow> string \<Rightarrow> int \<Rightarrow> query" where
  "action_query kw category language max_articles =
     \<lparr>q_keywords = (if nonempty kw then kw else None),
      q_category = (case category of
                      None \<Rightarrow> None
                    | Some c \<Rightarrow> if c = [] then None else category_map (lower c)),
      q_lang = language, q_days = 2, q_count = max_articles\<rparr>"

definition action_fetch_latest_news ::
    "env \<Rightarrow> string option \<Rightarrow> string option \<Rightarrow> string \<Rightarrow> int \<Rightarrow> error + dict list" where
  "action_fetch_latest_news env kw category language max_articles =
     (case search env (action_query kw category language max_articles) of
        Inl e \<Rightarrow> if is_Exception e then Inr [] else Inl e
      | Inr found \<Rightarrow> Inr found)"

text \<open>
  \<open>ArticleGenerator.generate_article\<close>. The prompt is built before the \<open>try\<close> block.
  The stripped response loses its code fence, \<^verbatim>\<open>[7:-3]\<close> after \<^verbatim>\<open>```json\<close> and
  \<^verbatim>\<open>[3:-3]\<close> after \<^verbatim>\<open>```\<close>, and is parsed as JSON; a \<open>JSONDecodeError\<close>
  gives the fallback structure; the metadata are written over the result with
  \<open>update\<close>, which a parsed value that is not an object does not have. Every \<open>Exception\<close>
  in the \<open>try\<close> block gives the record of a failure.
\<close>

definition fence_strip :: "string \<Rightarrow> string" where
  "fence_strip article_text =
     (if startswith article_text ''```json'' then strip (py_slice article_text 7 (- 3))
      else if startswith article_text ''```'' then strip (py_slice article_text 3 (- 3))
      else article_text)"

definition no_update :: "string \<Rightarrow> error" where
  "no_update ty = AttributeError ([CHR 0x27] @ ty @ ''' object has no attribute 'update'' @ [CHR 0x27])"

definition action_fallback :: "dict \<Rightarrow> string \<Rightarrow> error + dict" where
  "action_fallback news_data article_text =
     (case slice_value (get news_data ''categories'' (PList [])) 5 of
        Inl e \<Rightarrow> Inl e
      | Inr tags \<Rightarrow>
          Inr [''headline'' \<mapsto> get news_data ''title'' (PStr ''Generated Article''),
               ''lead'' \<mapsto> PStr (slice_to article_text 300 @ ''...''),
               ''body'' \<mapsto> PStr article_text,
               ''conclusion'' \<mapsto> PStr [],
               ''tags'' \<mapsto> tags,
               ''word_count'' \<mapsto> PInt (int (length (py_split article_text)))])"

definition action_metadata :: "env \<Rightarrow> dict \<Rightarrow> dict" where
  "action_metadata env news_data =
     [''original_source'' \<mapsto> get news_data ''source'' (PStr []),
      ''original_url'' \<mapsto> get news_data ''url'' (PStr []),
      ''original_date'' \<mapsto> get news_data ''date'' (PStr []),
      ''generated_at'' \<mapsto> PStr (now_iso env)]"

definition action_parse :: "env \<Rightarrow> dict \<Rightarrow> string \<Rightarrow> error + dict" where
  "action_parse env news_data response_text =
     (let article_text = fence_strip (strip response_text)
      in case json_loads env article_text of
           Inl e \<Rightarrow>
             if is_JSONDecodeError e
             then (case action_fallback news_data article_text of
                     Inl e' \<Rightarrow> Inl e'
                   | Inr article_data \<Rightarrow> Inr (article_data ++ action_metadata env news_data))
             else Inl e
         | Inr (JObject article_data) \<Rightarrow> Inr (article_data ++ action_metadata env news_data)
         | Inr (JOther ty) \<Rightarrow> Inl (no_update ty))"

definition action_generate_article :: "env \<Rightarrow> dict \<Rightarrow> string \<Rightarrow> error + dict" where
  "action_generate_article env news_data style =
     (case slice_value (get news_data ''body'' (PStr ''N/A'')) 2000 of
        Inl e \<Rightarrow> Inl e
      | Inr b \<Rightarrow>
          (case (case generate_content env news_data (effective_style style) of
                   Inl e \<Rightarrow> Inl e
                 | Inr response_text \<Rightarrow> action_parse env news_data response_text) of
             Inl e \<Rightarrow> if is_Exception e then Inr [''error'' \<mapsto> PStr (str_error e)] else Inl e
           | Inr article_data \<Rightarrow> Inr article_data))"

text \<open>
  \<open>save_article_to_markdown\<close>. The document is one f-string. The two lines that were
  meant to build \<open>conclusion_section\<close> before it stand inside it, as text of the document,
  so the name \<open>conclusion_section\<close> is never bound: once the fields before it have been
  formatted (the tags are joined, which raises for an integer), evaluating
  \<^verbatim>\<open>{conclusion_section}\<close> raises \<open>NameError\<close>. This happens before the \<open>try\<close> block that
  writes the file.
\<close>

definition action_save_article_to_markdown ::
    "env \<Rightarrow> dict \<Rightarrow> string option \<Rightarrow> world \<Rightarrow> string result" where
  "action_save_article_to_markdown env article filename w =
     (if has_key article ''error'' then Inr ([], w)
      else case chosen_filename env article filename of
             Inl e \<Rightarrow> Inl (e, w)
           | Inr f \<Rightarrow>
               (case join_value '', '' (get article ''tags'' (PList [])) of
                  Inl e \<Rightarrow> Inl (e, w)
                | Inr tags \<Rightarrow> Inl (NameError ''name 'conclusion_section' is not defined'', w)))"

text \<open>
  \<open>main\<close>: the articles for the keyword, then the articles for the category, each
  generation followed by a sleep of two seconds, then the summary when an article of the
  category was saved. The loop carries the index \<open>i + 1\<close>, the list \<open>generated_files\<close>
  and the list \<open>category_articles\<close>, to which only the second loop appends.
\<close>

definition action_filename :: "env \<Rightarrow> string \<Rightarrow> nat \<Rightarrow> string" where
  "action_filename env prefix i = prefix @ ''_'' @ show_nat i @ ''_'' @ now_ymd env @ ''.md''"

fun action_loop ::
    "env \<Rightarrow> string \<Rightarrow> string \<Rightarrow> bool \<Rightarrow> nat \<Rightarrow> dict list \<Rightarrow> string list \<Rightarrow> dict list \<Rightarrow> world
     \<Rightarrow> (string list \<times> dict list) result" where
  "action_loop env prefix style collecting i [] generated_files category_articles w =
     Inr ((generated_files, category_articles), w)"
| "action_loop env prefix style collecting i (news # rest) generated_files category_articles w =
     (case action_generate_article env news style of
        Inl e \<Rightarrow> Inl (e, log (Generate news) w)
      | Inr article \<Rightarrow>
          (case (if \<not> has_key article ''error''
                 then (case action_save_article_to_markdown env article
                              (Some (action_filename env prefix i)) (log (Generate news) w) of
                         Inl ew \<Rightarrow> Inl ew
                       | Inr (filename, w') \<Rightarrow>
                           Inr (if filename \<noteq> []
                                then (generated_files @ [filename],
                                      if collecting then category_articles @ [article]
                                      else category_articles)
                                else (generated_files, category_articles), w'))
                 else Inr ((generated_files, category_articles), log (Generate news) w)) of
             Inl ew \<Rightarrow> Inl ew
           | Inr ((generated_files', category_articles'), w') \<Rightarrow>
               action_loop env prefix style collecting (Suc i) rest
                 generated_files' category_articles' (log (Sleep 2) w')))"

definition action_keyword_loop :: "env \<Rightarrow> string \<Rightarrow> string \<Rightarrow> world \<Rightarrow> string list result" where
  "action_keyword_loop env kw style w =
     (if kw = [] then Inr ([], w)
      else case action_fetch_latest_news env (Some kw) None ''eng'' 2 of
             Inl e \<Rightarrow> Inl (e, w)
           | Inr news_articles \<Rightarrow>
               (case action_loop env (''keyword_'' @ replace_space kw) style False 1
                       news_articles [] [] w of
                  Inl ew \<Rightarrow> Inl ew
                | Inr ((generated_files, category_articles), w') \<Rightarrow> Inr (generated_files, w')))"

definition action_main ::
    "env \<Rightarrow> string \<Rightarrow> string \<Rightarrow> string \<Rightarrow> world \<Rightarrow> outcome \<times> world" where
  "action_main env kw style category w =
     (if \<not> nonempty (getenv env ''EVENTREGISTRY_API_KEY'') \<or>
         \<not> nonempty (getenv env ''GOOGLE_API_KEY'')
      then (Exit 1, w)
      else (case init_error env of
              Some e \<Rightarrow> if is_Exception e then (Exit 1, w) else (Uncaught e, w)
            | None \<Rightarrow>
                (case action_keyword_loop env kw style w of
                   Inl (e, w') \<Rightarrow> (Uncaught e, w')
                 | Inr (generated_files, w1) \<Rightarrow>
                     (case action_fetch_latest_news env None (Some category) ''eng'' 3 of
                        Inl e \<Rightarrow> (Uncaught e, w1)
                      | Inr category_news \<Rightarrow>
                          (case action_loop env (''category_'' @ category) style True 1
                                  category_news generated_files [] w1 of
                             Inl (e, w') \<Rightarrow> (Uncaught e, w')
                           | Inr ((generated_files', category_articles), w2) \<Rightarrow>
                               (let summary_filename = ''news_summary_'' @ now_ymd env @ ''.json'';
                                    summary =
                                      \<lparr>sd_date = now_date env, sd_keyword = kw,
                                       sd_category = category, sd_style = style,
                                       articles_generated = length generated_files',
                                       sd_files = generated_files',
                                       sd_articles = category_articles\<rparr>
                                in (Exit 0,
                                    if category_articles \<noteq> [] \<and> can_write env summary_filename
                                    then write_file summary_filename (JsonSummary summary) w2
                                    else w2)))))))"

section \<open>\<open>clean_functional_news_bot_with_issues_backup.py\<close>\<close>

text \<open>
  \<open>fetch_news_articles\<close>: the query is for the keyword and the current day; the loop
  stops once \<open>max_articles\<close> records are there; any \<open>Exception\<close> gives the empty list.
\<close>

definition issues_query :: "string \<Rightarrow> int \<Rightarrow> query" where
  "issues_query kw max_articles =
     \<lparr>q_keywords = Some kw, q_category = None, q_lang = ''eng'', q_days = 0,
      q_count = max_articles\<rparr>"

definition issues_fetch_news_articles :: "env \<Rightarrow> string \<Rightarrow> int \<Rightarrow> error + dict list" where
  "issues_fetch_news_articles env kw max_articles =
     (case search env (issues_query kw max_articles) of
        Inl e \<Rightarrow> if is_Exception e then Inr [] else Inl e
      | Inr found \<Rightarrow> Inr (collect max_articles 0 found))"

text \<open>
  \<open>generate_article_with_gemini\<close>: as in \<open>news_bot_action.py\<close>, with other fields in
  the fallback structure and in the metadata, and with the whole body, the prompt
  included, inside the \<open>try\<close> block. The prompt has no style; the empty string stands
  for it in the request.
\<close>

definition issues_fallback :: "dict \<Rightarrow> string \<Rightarrow> error + dict" where
  "issues_fallback news_data article_text =
     (case slice_value (get news_data ''categories'' (PList [])) 3 of
        Inl e \<Rightarrow> Inl e
      | Inr tags \<Rightarrow>
          Inr [''headline'' \<mapsto> get news_data ''title'' (PStr ''Generated Article''),
               ''content'' \<mapsto> PStr article_text,
               ''summary'' \<mapsto> PStr (slice_to article_text 200 @ ''...''),
               ''tags'' \<mapsto> tags])"

definition issues_metadata :: "env \<Rightarrow> dict \<Rightarrow> dict" where
  "issues_metadata env news_data =
     [''original_source'' \<mapsto> get news_data ''source'' (PStr []),
      ''original_url'' \<mapsto> get news_data ''url'' (PStr []),
      ''generated_at'' \<mapsto> PStr (now_iso env)]"

definition issues_parse :: "env \<Rightarrow> dict \<Rightarrow> string \<Rightarrow> error + dict" where
  "issues_parse env news_data response_text =
     (let article_text = fence_strip (strip response_text)
      in case json_loads env article_text of
           Inl e \<Rightarrow>
             if is_JSONDecodeError e
             then (case issues_fallback news_data article_text of
                     Inl e' \<Rightarrow> Inl e'
                   | Inr article_data \<Rightarrow> Inr (article_data ++ issues_metadata env news_data))
             else Inl e
         | Inr (JObject article_data) \<Rightarrow> Inr (article_data ++ issues_metadata env news_data)
         | Inr (JOther ty) \<Rightarrow> Inl (no_update ty))"

definition issues_generate_article_with_gemini :: "env \<Rightarrow> dict \<Rightarrow> error + dict" where
  "issues_generate_article_with_gemini env news_data =
     (case (case slice_value (get news_data ''body'' (PStr ''N/A'')) 2000 of
              Inl e \<Rightarrow> Inl e
            | Inr b \<Rightarrow>
                (case generate_content env news_data [] of
                   Inl e \<Rightarrow> Inl e
                 | Inr response_text \<Rightarrow> issues_parse env news_data response_text)) of
        Inl e \<Rightarrow>
          if is_Exception e
          then Inr [''error'' \<mapsto> PStr (str_error e),
                    ''headline'' \<mapsto> get news_data ''title'' (PStr ''Error''),
                    ''original_source'' \<mapsto> get news_data ''source'' (PStr [])]
          else Inl e
      | Inr article_data \<Rightarrow> Inr article_data)"

text \<open>
  \<open>save_article_to_file\<close>. The document is built before the \<open>try\<close> block that writes
  it; joining the tags raises for an integer.
\<close>

definition issues_markdown :: "dict \<Rightarrow> string \<Rightarrow> string" where
  "issues_markdown article tags =
     ''# '' @ py_str (get article ''headline'' (PStr ''Generated Article'')) @
     ''\<newline>\<newline>**Generated:** '' @ py_str (get article ''generated_at'' (PStr ''N/A'')) @
     ''  \<newline>**Source:** '' @ py_str (get article ''original_source'' (PStr ''N/A'')) @
     ''  \<newline>**Tags:** '' @ tags @
     ''  \<newline>\<newline>---\<newline>\<newline>## Summary\<newline>\<newline>'' @ py_str (get article ''summary'' (PStr ''N/A'')) @
     ''\<newline>\<newline>## Article\<newline>\<newline>'' @ py_str (get article ''content'' (PStr ''N/A'')) @
     ''\<newline>\<newline>---\<newline>\<newline>*Generated by Clean Functional News Bot*  \<newline>**Original URL:** '' @
     py_str (get article ''original_url'' (PStr ''N/A'')) @ ''\<newline>''"

definition issues_save_article_to_file ::
    "env \<Rightarrow> dict \<Rightarrow> string option \<Rightarrow> world \<Rightarrow> string result" where
  "issues_save_article_to_file env article filename w =
     (if has_key article ''error'' then Inr ([], w)
      else case chosen_filename env article filename of
             Inl e \<Rightarrow> Inl (e, w)
           | Inr f \<Rightarrow>
               (case join_value '', '' (get article ''tags'' (PList [])) of
                  Inl e \<Rightarrow> Inl (e, w)
                | Inr tags \<Rightarrow>
                    if can_write env f
                    then Inr (f, write_file f (Text (issues_markdown article tags)) w)
                    else Inr ([], w)))"

text \<open>
  \<open>create_github_issue\<close>. Without a token or without a repository the function returns
  \<open>False\<close> at once. Otherwise it builds the text of the issue, which is not modelled: it
  reads the article files inside a \<open>try\<close> block of its own and has no influence on
  what the function returns. Then it posts the issue; it returns \<open>True\<close> when the status
  is 201 and the response has the fields that are printed, and \<open>False\<close> for another
  status or for an \<open>Exception\<close>.
\<close>

definition issues_url :: "string \<Rightarrow> string" where
  "issues_url github_repo = ''https://api.github.com/repos/'' @ github_repo @ ''/issues''"

definition post_issue :: "env \<Rightarrow> string \<Rightarrow> string list \<Rightarrow> world \<Rightarrow> bool result" where
  "post_issue env github_repo printed w =
     (let w' = log (HttpPost (issues_url github_repo)) w
      in case http_post env (issues_url github_repo) of
           Inl e \<Rightarrow> if is_Exception e then Inr (False, w') else Inl (e, w')
         | Inr r \<Rightarrow>
             if status_code r = 201
             then (case response_json r of
                     Inl e \<Rightarrow> if is_Exception e then Inr (False, w') else Inl (e, w')
                   | Inr issue_data \<Rightarrow> Inr (list_all (has_key issue_data) printed, w'))
             else Inr (False, w'))"

definition issues_create_github_issue :: "env \<Rightarrow> world \<Rightarrow> bool result" where
  "issues_create_github_issue env w =
     (case (getenv env ''GITHUB_TOKEN'', getenv env ''GITHUB_REPOSITORY'') of
        (Some github_token, Some github_repo) \<Rightarrow>
          if github_token = [] \<or> github_repo = [] then Inr (False, w)
          else post_issue env github_repo [''number'', ''html_url''] w
      | _ \<Rightarrow> Inr (False, w))"

section \<open>\<open>news_bot.py\<close>\<close>

text \<open>
  \<open>NewsBot.fetch_news\<close> asks for twice \<open>max_articles\<close> results of the last week and
  stops once \<open>max_articles\<close> records are there. Both \<open>except\<close> clauses, for
  \<open>ImportError\<close> and for any other \<open>Exception\<close>, return what \<open>_fetch_news_fallback\<close>
  returns: the records of a direct request, or the empty list when that raises an
  \<open>Exception\<close> too.
\<close>

definition bot_query :: "string \<Rightarrow> int \<Rightarrow> query" where
  "bot_query kw max_articles =
     \<lparr>q_keywords = Some kw, q_category = None, q_lang = ''eng'', q_days = 7,
      q_count = max_articles * 2\<rparr>"

definition bot_fetch_news_fallback :: "env \<Rightarrow> string \<Rightarrow> int \<Rightarrow> error + dict list" where
  "bot_fetch_news_fallback env kw max_articles =
     (case json_request env kw max_articles of
        Inl e \<Rightarrow> if is_Exception e then Inr [] else Inl e
      | Inr found \<Rightarrow> Inr found)"

definition bot_fetch_news :: "env \<Rightarrow> string \<Rightarrow> int \<Rightarrow> error + dict list" where
  "bot_fetch_news env kw max_articles =
     (case search env (bot_query kw max_articles) of
        Inl e \<Rightarrow>
          if is_ImportError e then bot_fetch_news_fallback env kw max_articles
          else if is_Exception e then bot_fetch_news_fallback env kw max_articles
          else Inl e
      | Inr found \<Rightarrow> Inr (collect max_articles 0 found))"

text \<open>
  \<open>NewsBot._extract_title\<close>: the first line that, stripped, is not empty, does not start
  with \<open>#\<close> and is longer than 10 characters once the emphasis marks are removed.
\<close>

fun first_title :: "string list \<Rightarrow> string" where
  "first_title [] = ''Generated News Article''"
| "first_title (l # ls) =
     (let line = strip l
      in if line \<noteq> [] \<and> \<not> startswith line ''#''
         then (let title = strip (replace_all ''#'' [] (replace_all ''*'' []
                                    (replace_all ''**'' [] line)))
               in if 10 < length title then title else first_title ls)
         else first_title ls)"

definition bot_extract_title :: "string \<Rightarrow> string" where
  "bot_extract_title content = first_title (split_lines content)"

text \<open>
  \<open>NewsBot.generate_article\<close> gives the dictionary below, here a record, or \<open>None\<close>.
  The first line printed and the prompt read the title, the source and the body of the
  source article before the \<open>try\<close> block; the URL is read inside it.
\<close>

record generated_article =
  g_title :: string
  g_content :: string
  g_original_source :: pyval
  g_original_url :: pyval
  g_generated_at :: string
  g_style :: string

definition bot_generate_article :: "env \<Rightarrow> dict \<Rightarrow> string \<Rightarrow> error + generated_article option" where
  "bot_generate_article env source_article style =
     (case item source_article ''title'' of
        Inl e \<Rightarrow> Inl e
      | Inr t \<Rightarrow>
     (case slice_value t 50 of
        Inl e \<Rightarrow> Inl e
      | Inr t50 \<Rightarrow>
     (case item source_article ''source'' of
        Inl e \<Rightarrow> Inl e
      | Inr source \<Rightarrow>
     (case item source_article ''body'' of
        Inl e \<Rightarrow> Inl e
      | Inr body \<Rightarrow>
     (case generate_content env source_article style of
        Inl e \<Rightarrow> if is_Exception e then Inr None else Inl e
      | Inr response_text \<Rightarrow>
          if response_text \<noteq> []
          then (case item source_article ''url'' of
                  Inl e \<Rightarrow> Inr None
                | Inr url \<Rightarrow>
                    Inr (Some \<lparr>g_title = bot_extract_title response_text,
                               g_content = response_text,
                               g_original_source = source,
                               g_original_url = url,
                               g_generated_at = now_iso env,
                               g_style = style\<rparr>))
          else Inr None)))))"

text \<open>
  \<open>NewsBot.save_article\<close>, for a dictionary that \<open>generate_article\<close> returned. The file
  is written outside any \<open>try\<close> block: when it cannot be opened the \<open>OSError\<close>, here
  with the name of the file, leaves the function.
\<close>

definition bot_markdown :: "generated_article \<Rightarrow> string" where
  "bot_markdown article =
     ''# '' @ g_title article @
     ''\<newline>\<newline>**Generated:** '' @ g_generated_at article @
     ''  \<newline>**Style:** '' @ g_style article @
     ''  \<newline>**Original Source:** '' @ py_str (g_original_source article) @
     ''  \<newline>**Source URL:** '' @ py_str (g_original_url article) @
     ''  \<newline>\<newline>---\<newline>\<newline>'' @ g_content article @
     ''\<newline>\<newline>---\<newline>\<newline>*Generated by AI News Bot using EventRegistry API + Google Gemini AI*\<newline>''"

definition bot_save_article ::
    "env \<Rightarrow> generated_article \<Rightarrow> string \<Rightarrow> world \<Rightarrow> string result" where
  "bot_save_article env article kw w =
     (let filename = ''article_'' @ safe_title_nb (g_title article) @ ''_'' @ now_stamp env
                       @ ''.md''
      in if can_write env filename
         then Inr (filename, write_file filename (Text (bot_markdown article)) w)
         else Inl (OSError filename, w))"

text \<open>
  \<open>NewsBot.create_github_issue\<close>: as in the script above, but only the number of the
  issue is printed.
\<close>

definition bot_create_github_issue :: "env \<Rightarrow> world \<Rightarrow> bool result" where
  "bot_create_github_issue env w =
     (case (getenv env ''GITHUB_TOKEN'', getenv env ''GITHUB_REPOSITORY'') of
        (Some github_token, Some github_repo) \<Rightarrow>
          if github_token = [] \<or> github_repo = [] then Inr (False, w)
          else post_issue env github_repo [''number''] w
      | _ \<Rightarrow> Inr (False, w))"

text \<open>
  \<open>main\<close>. Nothing here is inside a \<open>try\<close> block. The run exits with status 1 without
  the keys, when no article was fetched, and when no article was generated; between two
  generations there is no pause.
\<close>

fun bot_loop ::
    "env \<Rightarrow> string \<Rightarrow> string \<Rightarrow> dict list \<Rightarrow> string list \<Rightarrow> world
     \<Rightarrow> string list result" where
  "bot_loop env kw style [] generated_files w = Inr (generated_files, w)"
| "bot_loop env kw style (article # rest) generated_files w =
     (case bot_generate_article env article style of
        Inl e \<Rightarrow> Inl (e, log (Generate article) w)
      | Inr None \<Rightarrow> bot_loop env kw style rest generated_files (log (Generate article) w)
      | Inr (Some g) \<Rightarrow>
          (case bot_save_article env g kw (log (Generate article) w) of
             Inl ew \<Rightarrow> Inl ew
           | Inr (filename, w') \<Rightarrow> bot_loop env kw style rest (generated_files @ [filename]) w'))"

definition bot_main :: "env \<Rightarrow> string \<Rightarrow> int \<Rightarrow> string \<Rightarrow> world \<Rightarrow> outcome \<times> world" where
  "bot_main env kw max_articles style w =
     (if \<not> nonempty (getenv env ''EVENTREGISTRY_API_KEY'') \<or>
         \<not> nonempty (getenv env ''GOOGLE_API_KEY'')
      then (Exit 1, w)
      else (case init_error env of
              Some e \<Rightarrow> (Uncaught e, w)
            | None \<Rightarrow>
                (case bot_fetch_news env kw max_articles of
                   Inl e \<Rightarrow> (Uncaught e, w)
                 | Inr news_articles \<Rightarrow>
                     if news_articles = [] then (Exit 1, w)
                     else (case bot_loop env kw style news_articles [] w of
                             Inl (e, w') \<Rightarrow> (Uncaught e, w')
                           | Inr (generated_files, w') \<Rightarrow>
                               if generated_files = [] then (Exit 1, w')
                               else (case bot_create_github_issue env w' of
                                       Inl (e, w'') \<Rightarrow> (Uncaught e, w'')
                                     | Inr (created, w'') \<Rightarrow> (Exit 0, w''))))))"

section \<open>Example inputs\<close>

text \<open>
  Inputs at which the properties below are evaluated: two fetched articles, an
  environment in which every service answers and every file can be written, and the
  world before a run.
\<close>

definition first_news :: dict where
  "first_news = [''title'' \<mapsto> PStr ''First'', ''body'' \<mapsto> PStr ''First text'',
                 ''url'' \<mapsto> PStr ''http://a'', ''date'' \<mapsto> PStr ''2025-01-01'',
                 ''source'' \<mapsto> PStr ''Source A'']"

definition second_news :: dict where
  "second_news = [''title'' \<mapsto> PStr ''Second'', ''body'' \<mapsto> PStr ''Second text'',
                  ''url'' \<mapsto> PStr ''http://b'', ''date'' \<mapsto> PStr ''2025-01-02'',
                  ''source'' \<mapsto> PStr ''Source B'']"

definition example_env :: env where
  "example_env =
     \<lparr>search = (\<lambda>q. Inr [first_news, second_news]),
      json_request = (\<lambda>kw n. Inr [first_news]),
      generate_content = (\<lambda>a style. Inr ''HEADLINE: A\<newline>LEAD: B\<newline>BODY: C\<newline>CONCLUSION: D''),
      json_loads = (\<lambda>s. Inl (JSONDecodeError ''Expecting value'')),
      can_write = (\<lambda>f. True),
      init_error = None,
      http_post = (\<lambda>u. Inl (ConnectionError ''unreachable'')),
      getenv = (\<lambda>k. if k = ''EVENTREGISTRY_API_KEY'' \<or> k = ''GOOGLE_API_KEY''
                     then Some ''key'' else None),
      now_iso = ''2025-01-03T00:00:00'',
      now_ymd = ''20250103'',
      now_stamp = ''20250103_000000'',
      now_date = ''2025-01-03''\<rparr>"

definition empty_world :: world where
  "empty_world = \<lparr>files = Map.empty, events = []\<rparr>"

text \<open>
  An article as the generator returns it, with an empty conclusion, and the record of a
  failed generation.
\<close>

definition example_article :: dict where
  "example_article = [''headline'' \<mapsto> PStr ''H'', ''lead'' \<mapsto> PStr ''L'', ''body'' \<mapsto> PStr ''B'',
                      ''conclusion'' \<mapsto> PStr [], ''tags'' \<mapsto> PList [''x''],
                      ''word_count'' \<mapsto> PInt 2]"

definition failed_article :: dict where
  "failed_article = [''error'' \<mapsto> PStr ''quota exceeded'', ''original_title'' \<mapsto> PStr ''First'',
                     ''original_source'' \<mapsto> PStr ''Source A'']"

section \<open>Properties of the extraction\<close>

lemma occurs_at_bound: "sub \<noteq> [] \<Longrightarrow> occurs_at s sub p \<Longrightarrow> p + length sub \<le> length s"
proof -
  assume ne: "sub \<noteq> []" and "occurs_at s sub p"
  then have "length (take (length sub) (drop p s)) = length sub"
    by (simp add: occurs_at_def)
  then have "min (length sub) (length s - p) = length sub" by simp
  moreover from ne have "0 < length sub" by simp
  ultimately show ?thesis by arith
qed

lemma occurs_at_Cons: "occurs_at (c # cs) sub (Suc k) = occurs_at cs sub k"
  by (simp add: occurs_at_def)

lemma occurs_at_0: "occurs_at s sub 0 = startswith s sub"
  by (simp add: occurs_at_def startswith_def)

lemma find_at_range: "find_at sub s i = - 1 \<or> (\<exists>k. find_at sub s i = int (i + k))"
proof (induction s arbitrary: i)
  case Nil
  show ?case by simp
next
  case (Cons c cs)
  show ?case
  proof (cases "startswith (c # cs) sub")
    case True
    then show ?thesis by simp
  next
    case False
    from Cons [of "Suc i"] consider "find_at sub cs (Suc i) = - 1"
      | k where "find_at sub cs (Suc i) = int (Suc i + k)" by blast
    then show ?thesis
    proof cases
      case 1
      with False show ?thesis by simp
    next
      case 2
      then have "find_at sub (c # cs) i = int (i + Suc k)" using False by simp
      then show ?thesis by blast
    qed
  qed
qed

lemma find_at_none:
  "sub \<noteq> [] \<Longrightarrow> find_at sub s i = - 1 \<Longrightarrow> \<not> occurs_at s sub k"
proof (induction s arbitrary: i k)
  case Nil
  then show ?case by (simp add: occurs_at_def)
next
  case (Cons c cs)
  from Cons.prems have ns: "\<not> startswith (c # cs) sub" by (auto split: if_splits)
  with Cons.prems have f: "find_at sub cs (Suc i) = - 1" by simp
  show ?case
  proof (cases k)
    case 0
    with ns show ?thesis by (simp add: occurs_at_0)
  next
    case (Suc j)
    with Cons.IH [OF Cons.prems(1) f] show ?thesis by (simp add: occurs_at_Cons)
  qed
qed

lemma find_at_first:
  "find_at sub s i = int (i + k) \<Longrightarrow> occurs_at s sub k \<and> (\<forall>j<k. \<not> occurs_at s sub j)"
proof (induction s arbitrary: i k)
  case Nil
  then show ?case by (auto simp: occurs_at_def split: if_splits)
next
  case (Cons c cs)
  show ?case
  proof (cases "startswith (c # cs) sub")
    case True
    with Cons.prems have "k = 0" by simp
    with True show ?thesis by (simp add: occurs_at_0)
  next
    case False
    with Cons.prems have f: "find_at sub cs (Suc i) = int (i + k)" by simp
    from find_at_range [of sub cs "Suc i"] f have "k \<noteq> 0" by auto
    then obtain j where k: "k = Suc j" by (cases k) auto
    with f have "find_at sub cs (Suc i) = int (Suc i + j)" by simp
    from Cons.IH [OF this] have ih: "occurs_at cs sub j \<and> (\<forall>l<j. \<not> occurs_at cs sub l)" .
    show ?thesis
    proof (intro conjI allI impI)
      show "occurs_at (c # cs) sub k" using ih k by (simp add: occurs_at_Cons)
    next
      fix l assume "l < k"
      show "\<not> occurs_at (c # cs) sub l"
      proof (cases l)
        case 0
        with False show ?thesis by (simp add: occurs_at_0)
      next
        case (Suc l')
        with \<open>l < k\<close> k ih show ?thesis by (simp add: occurs_at_Cons)
      qed
    qed
  qed
qed


lemma occurs_at_drop: "occurs_at (drop a s) sub k = occurs_at s sub (a + k)"
  by (simp add: occurs_at_def add.commute)

lemma py_find_nat:
  "start \<le> length s \<Longrightarrow> py_find s sub (int start) = find_at sub (drop start s) start"
  by (simp add: py_find_def slice_from_def clamp_index_def)

lemma py_find_first:
  assumes ne: "sub \<noteq> []" and f: "first_at s sub start p"
  shows "py_find s sub (int start) = int p"
proof -
  from f have sp: "start \<le> p" and op: "occurs_at s sub p"
    and nq: "\<And>q. start \<le> q \<Longrightarrow> q < p \<Longrightarrow> \<not> occurs_at s sub q"
    by (auto simp: first_at_def)
  from occurs_at_bound [OF ne op] sp have sl: "start \<le> length s" by simp
  let ?r = "find_at sub (drop start s) start"
  from find_at_range [of sub "drop start s" start]
  consider "?r = - 1" | k where "?r = int (start + k)" by blast
  then have "?r = int p"
  proof cases
    case 1
    from find_at_none [OF ne 1, of "p - start"] op sp show ?thesis
      by (simp add: occurs_at_drop)
  next
    case 2
    from find_at_first [OF 2]
    have ok: "occurs_at s sub (start + k)"
      and nj: "\<And>j. j < k \<Longrightarrow> \<not> occurs_at s sub (start + j)"
      by (auto simp: occurs_at_drop)
    have "\<not> start + k < p" using nq [of "start + k"] ok by auto
    moreover have "\<not> p < start + k"
    proof
      assume "p < start + k"
      then have "p - start < k" using sp by arith
      from nj [OF this] op sp show False by simp
    qed
    ultimately have "start + k = p" by arith
    with 2 show ?thesis by simp
  qed
  with sl show ?thesis by (simp add: py_find_nat)
qed

lemma py_find_none:
  assumes ne: "sub \<noteq> []" and n: "\<not> occurs_from s sub start"
  shows "py_find s sub (int start) = - 1"
proof (cases "start \<le> length s")
  case False
  then show ?thesis by (simp add: py_find_def)
next
  case True
  let ?r = "find_at sub (drop start s) start"
  from find_at_range [of sub "drop start s" start]
  consider "?r = - 1" | k where "?r = int (start + k)" by blast
  then have "?r = - 1"
  proof cases
    case 1
    then show ?thesis .
  next
    case 2
    from find_at_first [OF 2] have ok: "occurs_at s sub (start + k)"
      by (simp add: occurs_at_drop)
    from occurs_at_bound [OF ne ok] ne have "start + k < length s"
      by (cases sub) auto
    with ok n show ?thesis by (auto simp: occurs_from_def)
  qed
  with True show ?thesis by (simp add: py_find_nat)
qed

lemma py_find_some:
  assumes ne: "sub \<noteq> []" and o: "occurs_from s sub start"
  shows "\<exists>p. first_at s sub start p \<and> py_find s sub (int start) = int p"
proof -
  from o obtain q where q: "start \<le> q" "q < length s" "occurs_at s sub q"
    by (auto simp: occurs_from_def)
  then have sl: "start \<le> length s" by simp
  let ?r = "find_at sub (drop start s) start"
  from find_at_range [of sub "drop start s" start]
  consider "?r = - 1" | k where "?r = int (start + k)" by blast
  then show ?thesis
  proof cases
    case 1
    from find_at_none [OF ne 1, of "q - start"] q show ?thesis
      by (simp add: occurs_at_drop)
  next
    case 2
    from find_at_first [OF 2]
    have "first_at s sub start (start + k)"
      by (auto simp: occurs_at_drop first_at_def) (metis le_add_diff_inverse less_diff_conv2 add.commute)
    with 2 sl show ?thesis by (auto simp: py_find_nat)
  qed
qed

lemma py_in_iff:
  assumes ne: "sub \<noteq> []"
  shows "py_in sub s \<longleftrightarrow> occurs_from s sub 0"
proof
  assume "py_in sub s"
  then have "find_at sub s 0 \<noteq> - 1" by (simp add: py_in_def)
  with find_at_range [of sub s 0] obtain k where k: "find_at sub s 0 = int (0 + k)" by auto
  from find_at_first [OF k] have ok: "occurs_at s sub k" by simp
  from occurs_at_bound [OF ne ok] ne have "k < length s" by (cases sub) auto
  with ok show "occurs_from s sub 0" by (auto simp: occurs_from_def)
next
  assume "occurs_from s sub 0"
  then obtain q where "occurs_at s sub q" by (auto simp: occurs_from_def)
  with find_at_none [OF ne, of s 0 q] show "py_in sub s" by (auto simp: py_in_def)
qed

lemma occurs_from_drop:
  assumes "start \<le> length s"
  shows "occurs_from (drop start s) sub 0 \<longleftrightarrow> occurs_from s sub start"
proof
  assume "occurs_from (drop start s) sub 0"
  then obtain q where "q < length s - start" "occurs_at s sub (start + q)"
    by (auto simp: occurs_from_def occurs_at_drop)
  then have "start + q \<in> {start..<length s}" "occurs_at s sub (start + q)" by auto
  then show "occurs_from s sub start" unfolding occurs_from_def by blast
next
  assume "occurs_from s sub start"
  then obtain q where q: "start \<le> q" "q < length s" "occurs_at s sub q"
    by (auto simp: occurs_from_def)
  then have "q - start \<in> {0..<length (drop start s)}"
    "occurs_at (drop start s) sub (q - start)"
    by (auto simp: occurs_at_drop)
  then show "occurs_from (drop start s) sub 0" unfolding occurs_from_def by blast
qed


lemma markers_nonempty: "m \<in> set section_markers \<Longrightarrow> m \<noteq> []"
  by (auto simp: section_markers_def)

lemma py_in_slice:
  assumes "m \<noteq> []" and "st \<le> length content"
  shows "py_in m (slice_from content (int st)) \<longleftrightarrow> occurs_from content m st"
  using assms
  by (simp add: py_in_iff slice_from_def clamp_index_def occurs_from_drop)

lemma step_le: "next_marker_step content marker start pos m \<le> pos"
  by (simp add: next_marker_step_def Let_def)

lemma fold_le: "foldl (next_marker_step content marker start) init ms \<le> init"
proof (induction ms arbitrary: init)
  case Nil
  show ?case by simp
next
  case (Cons x xs)
  have "foldl (next_marker_step content marker start) (next_marker_step content marker start init x) xs
        \<le> next_marker_step content marker start init x" by (rule Cons.IH)
  also have "\<dots> \<le> init" by (rule step_le)
  finally show ?case by simp
qed

lemma fold_le_find:
  assumes "st \<le> length content" and "\<forall>m\<in>set ms. m \<noteq> []"
    and "m \<in> set ms" and "m \<noteq> marker" and "occurs_from content m st"
  shows "foldl (next_marker_step content marker (int st)) init ms
         \<le> py_find content m (int st)"
  using assms(2,3)
proof (induction ms arbitrary: init)
  case Nil
  then show ?case by simp
next
  case (Cons x xs)
  let ?g = "next_marker_step content marker (int st)"
  show ?case
  proof (cases "m = x")
    case True
    have "foldl ?g (?g init x) xs \<le> ?g init x" by (rule fold_le)
    also have "?g init x \<le> py_find content m (int st)"
      using True assms(1,4,5) Cons.prems(1)
      by (simp add: next_marker_step_def Let_def py_in_slice)
    finally show ?thesis by simp
  next
    case False
    with Cons.prems have "m \<in> set xs" "\<forall>m\<in>set xs. m \<noteq> []" by auto
    from Cons.IH [OF this(2,1)] show ?thesis by simp
  qed
qed

lemma fold_is:
  assumes "st \<le> length content" and "\<forall>m\<in>set ms. m \<noteq> []"
  shows "foldl (next_marker_step content marker (int st)) init ms = init \<or>
         (\<exists>m\<in>set ms. m \<noteq> marker \<and> occurs_from content m st \<and>
            foldl (next_marker_step content marker (int st)) init ms
              = py_find content m (int st))"
  using assms(2)
proof (induction ms arbitrary: init)
  case Nil
  show ?case by simp
next
  case (Cons x xs)
  let ?g = "next_marker_step content marker (int st)"
  from Cons.prems have xs: "\<forall>m\<in>set xs. m \<noteq> []" and x: "x \<noteq> []" by auto
  have gx: "?g init x = init \<or>
     (x \<noteq> marker \<and> occurs_from content x st \<and> ?g init x = py_find content x (int st))"
    using x assms(1) by (simp add: next_marker_step_def Let_def py_in_slice)
  from Cons.IH [OF xs, of "?g init x"] gx show ?case by auto
qed

lemma next_marker_eq:
  assumes sl: "st \<le> length content" and b: "marker_boundary content marker st e"
  shows "next_marker content marker (int st) = int e"
proof -
  let ?r = "next_marker content marker (int st)"
  have ne: "\<forall>m\<in>set section_markers. m \<noteq> []" using markers_nonempty by blast
  from b have se: "st \<le> e" and el: "e \<le> length content"
    and nb: "\<And>m q. m \<in> set section_markers \<Longrightarrow> m \<noteq> marker \<Longrightarrow> st \<le> q \<Longrightarrow> q < e
               \<Longrightarrow> \<not> occurs_at content m q"
    and at: "e = length content \<or>
             (\<exists>m\<in>set section_markers. m \<noteq> marker \<and> occurs_at content m e)"
    by (auto simp: marker_boundary_def)
  have lower: "int e \<le> ?r"
  proof -
    from fold_is [OF sl ne, of marker "int (length content)"]
    consider "?r = int (length content)"
      | m where "m \<in> set section_markers" "m \<noteq> marker" "occurs_from content m st"
          "?r = py_find content m (int st)"
      unfolding next_marker_def by blast
    then show ?thesis
    proof cases
      case 1
      with el show ?thesis by simp
    next
      case 2
      from py_find_some [OF markers_nonempty [OF 2(1)] 2(3)]
      obtain p where p: "first_at content m st p" "py_find content m (int st) = int p"
        by blast
      then have "st \<le> p" "occurs_at content m p" by (auto simp: first_at_def)
      then have "\<not> p < e" using nb [OF 2(1,2), of p] by blast
      then have "e \<le> p" by simp
      with p 2(4) show ?thesis by simp
    qed
  qed
  have upper: "?r \<le> int e"
  proof -
    from at consider "e = length content"
      | m where "m \<in> set section_markers" "m \<noteq> marker" "occurs_at content m e" by blast
    then show ?thesis
    proof cases
      case 1
      with fold_le [of content marker "int st" "int (length content)" section_markers]
      show ?thesis by (simp add: next_marker_def)
    next
      case 2
      from occurs_at_bound [OF markers_nonempty [OF 2(1)] 2(3)] markers_nonempty [OF 2(1)]
      have "e < length content" by (cases m) auto
      with 2(3) se have o: "occurs_from content m st" by (auto simp: occurs_from_def)
      from py_find_some [OF markers_nonempty [OF 2(1)] o]
      obtain p where p: "first_at content m st p" "py_find content m (int st) = int p"
        by blast
      have "p \<le> e"
      proof (rule ccontr)
        assume "\<not> p \<le> e"
        with se have "e \<in> {st..<p}" by simp
        with p(1) 2(3) show False by (auto simp: first_at_def)
      qed
      with fold_le_find [OF sl ne 2(1,2) o, of "int (length content)"] p(2)
      show ?thesis by (simp add: next_marker_def)
    qed
  qed
  from lower upper show ?thesis by simp
qed

lemma py_slice_nat:
  "a \<le> b \<Longrightarrow> b \<le> length s \<Longrightarrow> py_slice s (int a) (int b) = take (b - a) (drop a s)"
  by (simp add: py_slice_def clamp_index_def Let_def)

lemma extract_absent:
  assumes "marker \<noteq> []" and "\<not> occurs_from content marker 0"
  shows "extract_section content marker = []"
  using assms by (simp add: extract_section_def py_in_iff)

lemma extract_present:
  assumes ne: "marker \<noteq> []" and f: "first_at content marker 0 p"
    and e: "if occurs_from content blank_line (p + length marker)
            then first_at content blank_line (p + length marker) e
            else marker_boundary content marker (p + length marker) e"
  shows "extract_section content marker
         = strip (take (e - (p + length marker)) (drop (p + length marker) content))"
proof -
  let ?st = "p + length marker"
  from f have op: "occurs_at content marker p" by (simp add: first_at_def)
  from occurs_at_bound [OF ne op] have sl: "?st \<le> length content" .
  with ne have "p < length content" by (cases marker) auto
  with op have "occurs_from content marker 0" by (auto simp: occurs_from_def)
  then have pin: "py_in marker content" using ne by (simp add: py_in_iff)
  from py_find_first [OF ne f] have pf: "py_find content marker 0 = int p" by simp
  have bl: "blank_line \<noteq> []" by (simp add: blank_line_def)
  have stop: "(let stop = py_find content blank_line (int ?st)
               in if stop = - 1 then next_marker content marker (int ?st) else stop) = int e
              \<and> ?st \<le> e \<and> e \<le> length content"
  proof (cases "occurs_from content blank_line ?st")
    case True
    with e have fe: "first_at content blank_line ?st e" by simp
    from py_find_first [OF bl fe] have "py_find content blank_line (int ?st) = int e" .
    moreover from fe have "?st \<le> e" "occurs_at content blank_line e"
      by (auto simp: first_at_def)
    moreover from occurs_at_bound [OF bl this(2)] have "e \<le> length content" by simp
    ultimately show ?thesis by simp
  next
    case False
    with e have mb: "marker_boundary content marker ?st e" by simp
    from py_find_none [OF bl False] have "py_find content blank_line (int ?st) = - 1" .
    moreover from next_marker_eq [OF sl mb]
    have "next_marker content marker (int ?st) = int e" .
    moreover from mb have "?st \<le> e" "e \<le> length content"
      by (auto simp: marker_boundary_def)
    ultimately show ?thesis by simp
  qed
  from stop have b: "?st \<le> e" "e \<le> length content" by simp_all
  have sl2: "py_slice content (int ?st) (int e) = take (e - ?st) (drop ?st content)"
    using b by (rule py_slice_nat)
  have ex: "extract_section content marker = strip (py_slice content (int ?st) (int e))"
    using pin pf stop by (auto simp add: extract_section_def Let_def split: if_splits)
  show ?thesis by (simp only: ex sl2)
qed

lemma extract_example:
  "map (extract_section ''HEADLINE: A\<newline>LEAD: B\<newline>BODY: C\<newline>CONCLUSION: D'')
     section_markers = [''A'', ''B'', ''C'', ''D'']"
  by code_simp

text \<open>
  Claim C2, as stated, at two concrete texts. In the first the body has two paragraphs
  separated by a blank line: the section ends at the blank line and the field is \<open>p1\<close>,
  while the text up to the next recognized marker (\<open>CONCLUSION:\<close>, at index 13) is
  both paragraphs. In the second the section's own marker occurs again (at index 8): it
  does not end the section, and the field is \<open>x LEAD: y\<close>, not \<open>x\<close>.
\<close>

theorem C2_extract_section_counterexample:
  "extract_section ''BODY: p1\<newline>\<newline>p2\<newline>CONCLUSION: C'' ''BODY:'' = ''p1'' \<and>
   py_find ''BODY: p1\<newline>\<newline>p2\<newline>CONCLUSION: C'' ''CONCLUSION:'' 5 = 13 \<and>
   strip (py_slice ''BODY: p1\<newline>\<newline>p2\<newline>CONCLUSION: C'' 5 13) = ''p1\<newline>\<newline>p2'' \<and>
   extract_section ''LEAD: x LEAD: y'' ''LEAD:'' = ''x LEAD: y'' \<and>
   py_find ''LEAD: x LEAD: y'' ''LEAD:'' 5 = 8 \<and>
   strip (py_slice ''LEAD: x LEAD: y'' 5 8) = ''x''"
  by code_simp

text \<open>
  Claim C2, amended. For each of the four markers: when the marker does not occur in the
  text the field is empty. Otherwise let \<open>p\<close> be the first index where it occurs and
  \<open>start\<close> the index just after it. If a blank line (two line feeds) follows \<open>start\<close>
  and none of the other three markers begins before the first such blank line, the field
  is the trimmed text from \<open>start\<close> to that blank line. If no blank line follows
  \<open>start\<close>, the field is the trimmed text from \<open>start\<close> to the first occurrence after
  \<open>start\<close> of one of the other three markers, or to the end of the text when there is
  none; a later occurrence of the section's own marker does not end it. On the four-line
  example the fields are \<open>A\<close>, \<open>B\<close>, \<open>C\<close> and \<open>D\<close>.
\<close>

theorem C2_extract_section:
  assumes "marker \<in> set section_markers"
  shows
    "(\<not> occurs_from content marker 0 \<longrightarrow> extract_section content marker = []) \<and>
     (first_at content marker 0 p \<and>
      (first_at content blank_line (p + length marker) e \<and>
         no_marker_between content marker (p + length marker) e
       \<or> \<not> occurs_from content blank_line (p + length marker) \<and>
         marker_boundary content marker (p + length marker) e) \<longrightarrow>
      extract_section content marker
        = strip (take (e - (p + length marker)) (drop (p + length marker) content))) \<and>
     map (extract_section ''HEADLINE: A\<newline>LEAD: B\<newline>BODY: C\<newline>CONCLUSION: D'')
       section_markers = [''A'', ''B'', ''C'', ''D'']"
proof -
  have ne: "marker \<noteq> []" using markers_nonempty [OF assms] .
  have bl: "blank_line \<noteq> []" by (simp add: blank_line_def)
  have 1: "\<not> occurs_from content marker 0 \<longrightarrow> extract_section content marker = []"
    using extract_absent [OF ne] by blast
  have 2: "first_at content marker 0 p \<and>
      (first_at content blank_line (p + length marker) e \<and>
         no_marker_between content marker (p + length marker) e
       \<or> \<not> occurs_from content blank_line (p + length marker) \<and>
         marker_boundary content marker (p + length marker) e) \<longrightarrow>
      extract_section content marker
        = strip (take (e - (p + length marker)) (drop (p + length marker) content))"
  proof (intro impI, elim conjE disjE)
    assume f: "first_at content marker 0 p"
      and b: "first_at content blank_line (p + length marker) e"
    from b have oe: "occurs_at content blank_line e" and se: "p + length marker \<le> e"
      by (auto simp: first_at_def)
    from occurs_at_bound [OF bl oe] have "e < length content" by (simp add: blank_line_def)
    with oe se have "occurs_from content blank_line (p + length marker)"
      by (auto simp: occurs_from_def)
    with b have "if occurs_from content blank_line (p + length marker)
            then first_at content blank_line (p + length marker) e
            else marker_boundary content marker (p + length marker) e" by simp
    from extract_present [OF ne f this] show "extract_section content marker
        = strip (take (e - (p + length marker)) (drop (p + length marker) content))" .
  next
    assume f: "first_at content marker 0 p"
      and n: "\<not> occurs_from content blank_line (p + length marker)"
      and m: "marker_boundary content marker (p + length marker) e"
    then have "if occurs_from content blank_line (p + length marker)
            then first_at content blank_line (p + length marker) e
            else marker_boundary content marker (p + length marker) e" by simp
    from extract_present [OF ne f this] show "extract_section content marker
        = strip (take (e - (p + length marker)) (drop (p + length marker) content))" .
  qed
  from 1 2 extract_example show ?thesis by (intro conjI)
qed

theorem C2_extract_section_witness:
  "''LEAD:'' \<in> set section_markers \<and>
   first_at ''HEADLINE: A\<newline>LEAD: B\<newline>BODY: C\<newline>CONCLUSION: D'' ''LEAD:'' 0 12 \<and>
   \<not> occurs_from ''HEADLINE: A\<newline>LEAD: B\<newline>BODY: C\<newline>CONCLUSION: D'' blank_line 17 \<and>
   marker_boundary ''HEADLINE: A\<newline>LEAD: B\<newline>BODY: C\<newline>CONCLUSION: D'' ''LEAD:'' 17 20 \<and>
   extract_section ''HEADLINE: A\<newline>LEAD: B\<newline>BODY: C\<newline>CONCLUSION: D'' ''LEAD:'' = ''B'' \<and>
   ''BODY:'' \<in> set section_markers \<and>
   first_at ''LEAD: L\<newline>\<newline>BODY: p1\<newline>\<newline>p2\<newline>CONCLUSION: C'' ''BODY:'' 0 9 \<and>
   first_at ''LEAD: L\<newline>\<newline>BODY: p1\<newline>\<newline>p2\<newline>CONCLUSION: C'' blank_line 14 17 \<and>
   no_marker_between ''LEAD: L\<newline>\<newline>BODY: p1\<newline>\<newline>p2\<newline>CONCLUSION: C'' ''BODY:'' 14 17 \<and>
   extract_section ''LEAD: L\<newline>\<newline>BODY: p1\<newline>\<newline>p2\<newline>CONCLUSION: C'' ''BODY:'' = ''p1'' \<and>
   \<not> occurs_from ''LEAD: L\<newline>\<newline>BODY: p1\<newline>\<newline>p2\<newline>CONCLUSION: C'' ''HEADLINE:'' 0 \<and>
   extract_section ''LEAD: L\<newline>\<newline>BODY: p1\<newline>\<newline>p2\<newline>CONCLUSION: C'' ''HEADLINE:'' = []"
proof -
  let ?t = "''HEADLINE: A\<newline>LEAD: B\<newline>BODY: C\<newline>CONCLUSION: D''"
  let ?u = "''LEAD: L\<newline>\<newline>BODY: p1\<newline>\<newline>p2\<newline>CONCLUSION: C''"
  have m: "''LEAD:'' \<in> set section_markers" by (simp add: section_markers_def)
  have mb: "''BODY:'' \<in> set section_markers" by (simp add: section_markers_def)
  have len: "length ?t = 41" by simp
  have o12: "occurs_at ?t ''LEAD:'' 12" by code_simp
  then have "occurs_from ?t ''LEAD:'' 0" unfolding occurs_from_def len by force
  from py_find_some [OF _ this] obtain p
    where p: "first_at ?t ''LEAD:'' 0 p" "py_find ?t ''LEAD:'' (int 0) = int p" by auto
  have "py_find ?t ''LEAD:'' 0 = 12" by code_simp
  with p(2) have "p = 12" by simp
  with p(1) have f: "first_at ?t ''LEAD:'' 0 12" by simp
  have nf: "py_find ?t blank_line (int 17) = - 1" by code_simp
  have n: "\<not> occurs_from ?t blank_line 17"
  proof
    assume "occurs_from ?t blank_line 17"
    from py_find_some [OF _ this] nf show False by (auto simp: blank_line_def)
  qed
  have three: "\<And>q. q \<in> {17..<20::nat} \<Longrightarrow> q = 17 \<or> q = 18 \<or> q = 19" by auto
  have h: "\<not> occurs_at ?t ''HEADLINE:'' 17" "\<not> occurs_at ?t ''HEADLINE:'' 18"
    "\<not> occurs_at ?t ''HEADLINE:'' 19" by code_simp+
  have bd: "\<not> occurs_at ?t ''BODY:'' 17" "\<not> occurs_at ?t ''BODY:'' 18"
    "\<not> occurs_at ?t ''BODY:'' 19" by code_simp+
  have c: "\<not> occurs_at ?t ''CONCLUSION:'' 17" "\<not> occurs_at ?t ''CONCLUSION:'' 18"
    "\<not> occurs_at ?t ''CONCLUSION:'' 19" by code_simp+
  have b20: "occurs_at ?t ''BODY:'' 20" by code_simp
  have none: "\<forall>m\<in>set section_markers. m \<noteq> ''LEAD:'' \<longrightarrow>
                (\<forall>q\<in>{17..<20}. \<not> occurs_at ?t m q)"
    using three h bd c unfolding section_markers_def by fastforce
  have some: "\<exists>m\<in>set section_markers. m \<noteq> ''LEAD:'' \<and> occurs_at ?t m 20"
    using b20 unfolding section_markers_def by simp
  have b: "marker_boundary ?t ''LEAD:'' 17 20"
    unfolding marker_boundary_def using none some len by simp
  have s: "strip (take (20 - 17) (drop 17 ?t)) = ''B''" by code_simp
  from C2_extract_section [OF m, of ?t 12 20] f n b
  have "extract_section ?t ''LEAD:'' = strip (take (20 - 17) (drop 17 ?t))" by simp
  with s have r1: "extract_section ?t ''LEAD:'' = ''B''" by (simp only:)
  have lenu: "length ?u = 35" by simp
  have o9: "occurs_at ?u ''BODY:'' 9" by code_simp
  then have "occurs_from ?u ''BODY:'' 0" unfolding occurs_from_def lenu by force
  from py_find_some [OF _ this] obtain p'
    where p': "first_at ?u ''BODY:'' 0 p'" "py_find ?u ''BODY:'' (int 0) = int p'" by auto
  have "py_find ?u ''BODY:'' 0 = 9" by code_simp
  with p'(2) have "p' = 9" by simp
  with p'(1) have fu: "first_at ?u ''BODY:'' 0 9" by simp
  have o17: "occurs_at ?u blank_line 17" by code_simp
  then have "occurs_from ?u blank_line 14" unfolding occurs_from_def lenu by force
  from py_find_some [OF _ this] obtain e
    where e: "first_at ?u blank_line 14 e" "py_find ?u blank_line (int 14) = int e"
    by (auto simp: blank_line_def)
  have "py_find ?u blank_line 14 = 17" by code_simp
  with e(2) have "e = 17" by simp
  with e(1) have fb: "first_at ?u blank_line 14 17" by simp
  have three': "\<And>q. q \<in> {14..<17::nat} \<Longrightarrow> q = 14 \<or> q = 15 \<or> q = 16" by auto
  have h': "\<not> occurs_at ?u ''HEADLINE:'' 14" "\<not> occurs_at ?u ''HEADLINE:'' 15"
    "\<not> occurs_at ?u ''HEADLINE:'' 16" by code_simp+
  have l': "\<not> occurs_at ?u ''LEAD:'' 14" "\<not> occurs_at ?u ''LEAD:'' 15"
    "\<not> occurs_at ?u ''LEAD:'' 16" by code_simp+
  have c': "\<not> occurs_at ?u ''CONCLUSION:'' 14" "\<not> occurs_at ?u ''CONCLUSION:'' 15"
    "\<not> occurs_at ?u ''CONCLUSION:'' 16" by code_simp+
  have nm: "no_marker_between ?u ''BODY:'' 14 17"
    unfolding no_marker_between_def using three' h' l' c'
    unfolding section_markers_def by fastforce
  have su: "strip (take (17 - 14) (drop 14 ?u)) = ''p1''" by code_simp
  from C2_extract_section [OF mb, of ?u 9 17] fu fb nm
  have "extract_section ?u ''BODY:'' = strip (take (17 - 14) (drop 14 ?u))" by simp
  with su have r2: "extract_section ?u ''BODY:'' = ''p1''" by (simp only:)
  have mh: "''HEADLINE:'' \<in> set section_markers" by (simp add: section_markers_def)
  have "\<not> py_in ''HEADLINE:'' ?u" by code_simp
  then have na: "\<not> occurs_from ?u ''HEADLINE:'' 0"
    using py_in_iff [of "''HEADLINE:''" ?u] by simp
  from C2_extract_section [OF mh, of ?u] na have r3: "extract_section ?u ''HEADLINE:'' = []" by blast
  from m f n b r1 mb fu fb nm r2 na r3 show ?thesis by blast
qed

section \<open>Properties of the filename derivation\<close>

lemma char_filter_idem: "char_filter (char_filter t) = char_filter t"
  by (simp add: char_filter_def)

lemma all_lstrip: "\<forall>c\<in>set s. P c \<Longrightarrow> \<forall>c\<in>set (lstrip s). P c"
  unfolding lstrip_def by (meson set_dropWhileD)

lemma all_rstrip: "\<forall>c\<in>set s. P c \<Longrightarrow> \<forall>c\<in>set (rstrip s). P c"
  unfolding rstrip_def by (metis set_dropWhileD set_rev)

lemma all_strip: "\<forall>c\<in>set s. P c \<Longrightarrow> \<forall>c\<in>set (strip s). P c"
  unfolding strip_def by (intro all_rstrip all_lstrip)

lemma keep_safe_title: "\<forall>c\<in>set (safe_title t). keep_char c"
proof -
  have "\<forall>c\<in>set (char_filter t). keep_char c" by (simp add: char_filter_def)
  then have "\<forall>c\<in>set (strip (char_filter t)). keep_char c" by (rule all_strip)
  then show ?thesis unfolding safe_title_def by (meson in_set_takeD)
qed

lemma char_filter_safe_title: "char_filter (safe_title t) = safe_title t"
  unfolding char_filter_def using keep_safe_title by (simp add: filter_id_conv)

lemma lstrip_id: "s = [] \<or> \<not> isspace (hd s) \<Longrightarrow> lstrip s = s"
  unfolding lstrip_def by (cases s) auto

lemma lstrip_hd: "lstrip s = [] \<or> \<not> isspace (hd (lstrip s))"
  unfolding lstrip_def by (metis hd_dropWhile)

lemma rstrip_hd:
  "s = [] \<or> \<not> isspace (hd s) \<Longrightarrow> rstrip s = [] \<or> \<not> isspace (hd (rstrip s))"
  unfolding rstrip_def
  by (metis Nil_is_rev_conv dropWhile.simps(1) dropWhile_last hd_rev last_in_set last_rev)

lemma strip_hd: "strip s = [] \<or> \<not> isspace (hd (strip s))"
  unfolding strip_def by (rule rstrip_hd) (rule lstrip_hd)

lemma take_hd:
  "s = [] \<or> \<not> isspace (hd s) \<Longrightarrow>
   take (Suc n) s = [] \<or> \<not> isspace (hd (take (Suc n) s))"
  by (cases s) auto

lemma safe_title_hd: "safe_title t = [] \<or> \<not> isspace (hd (safe_title t))"
proof -
  have "take (Suc 49) (strip (char_filter t)) = [] \<or>
        \<not> isspace (hd (take (Suc 49) (strip (char_filter t))))"
    by (rule take_hd) (rule strip_hd)
  then show ?thesis by (simp add: safe_title_def)
qed

lemma length_rstrip: "length (rstrip s) \<le> length s"
  unfolding rstrip_def using length_dropWhile_le [of isspace "rev s"] by simp

lemma length_safe_title: "length (safe_title t) \<le> 50"
  by (simp add: safe_title_def)

lemma safe_title_twice: "safe_title (safe_title t) = rstrip (safe_title t)"
proof -
  have "strip (safe_title t) = rstrip (safe_title t)"
    unfolding strip_def using lstrip_id [OF safe_title_hd] by simp
  moreover have "length (rstrip (safe_title t)) \<le> 50"
    using length_rstrip [of "safe_title t"] length_safe_title [of t] by linarith
  ultimately show ?thesis
    by (simp add: safe_title_def [of "safe_title t"] char_filter_safe_title)
qed

lemma keep_char_space: "keep_char c \<Longrightarrow> isspace c \<Longrightarrow> c = CHR '' ''"
  unfolding keep_char_def isalnum_def isspace_def Let_def by auto

lemma strip_no_space:
  assumes "\<forall>c\<in>set s. \<not> isspace c"
  shows "strip s = s"
proof -
  have 1: "lstrip s = s" unfolding lstrip_def using assms by (cases s) auto
  have "rev s = [] \<or> \<not> isspace (hd (rev s))"
    using assms by (metis hd_in_set set_rev)
  then have "dropWhile isspace (rev s) = rev s" by (simp add: dropWhile_eq_self_iff)
  then have 2: "rstrip s = s" by (simp add: rstrip_def)
  show ?thesis by (simp add: strip_def 1 2)
qed

lemma replace_space_id: "CHR '' '' \<notin> set s \<Longrightarrow> replace_space s = s"
  unfolding replace_space_def by (induction s) auto

lemma safe_title_nb_chars:
  assumes "c \<in> set (safe_title_nb t)"
  shows "keep_char c \<and> c \<noteq> CHR '' ''"
proof -
  from assms have "c \<in> set (replace_space (strip (char_filter t)))"
    unfolding safe_title_nb_def by (rule in_set_takeD)
  then obtain d where d: "d \<in> set (strip (char_filter t))"
      and c: "c = (if d = CHR '' '' then CHR ''_'' else d)"
    unfolding replace_space_def by auto
  have "\<forall>c\<in>set (char_filter t). keep_char c" by (simp add: char_filter_def)
  then have "\<forall>c\<in>set (strip (char_filter t)). keep_char c" by (rule all_strip)
  with d have "keep_char d" by blast
  with c show ?thesis by (auto simp: keep_char_def)
qed

lemma safe_title_nb_idem: "safe_title_nb (safe_title_nb t) = safe_title_nb t"
proof -
  let ?s = "safe_title_nb t"
  have k: "\<forall>c\<in>set ?s. keep_char c" using safe_title_nb_chars by blast
  have n: "CHR '' '' \<notin> set ?s" using safe_title_nb_chars by blast
  have "\<forall>c\<in>set ?s. \<not> isspace c" using safe_title_nb_chars keep_char_space by blast
  then have s: "strip ?s = ?s" by (rule strip_no_space)
  have f: "char_filter ?s = ?s"
    unfolding char_filter_def using k by (simp add: filter_id_conv)
  have l: "length ?s \<le> 50" by (simp add: safe_title_nb_def)
  show ?thesis
    by (simp add: safe_title_nb_def [of ?s] f s replace_space_id [OF n] l)
qed

lemma cut_filter: "take 50 (char_filter (take 50 (char_filter t))) = take 50 (char_filter t)"
proof -
  have "\<forall>c\<in>set (char_filter t). keep_char c" by (simp add: char_filter_def)
  then have "\<forall>c\<in>set (take 50 (char_filter t)). keep_char c" by (meson in_set_takeD)
  then have "filter keep_char (take 50 (char_filter t)) = take 50 (char_filter t)"
    by (simp only: filter_id_conv)
  then have 1: "char_filter (take 50 (char_filter t)) = take 50 (char_filter t)"
    by (simp only: char_filter_def)
  have 2: "take 50 (take 50 (char_filter t)) = take 50 (char_filter t)"
    by (simp only: take_take min.idem)
  show ?thesis by (simp only: 1 2)
qed

lemma char_filter_safe_title_nb: "char_filter (safe_title_nb t) = safe_title_nb t"
proof -
  have "\<forall>c\<in>set (safe_title_nb t). keep_char c" using safe_title_nb_chars by blast
  then have "filter keep_char (safe_title_nb t) = safe_title_nb t"
    by (simp only: filter_id_conv)
  then show ?thesis by (simp only: char_filter_def)
qed

text \<open>
  Claim C9. The filtering step of the filename derivation retains only alphanumeric
  characters, spaces, hyphens and underscores and keeps the first 50 characters.
  Applied to an already-filtered headline it gives the same string: the retention pass
  is idempotent, so is retention followed by the cut at 50, and the retention pass
  leaves unchanged every title that \<open>save_article\<close> derives, in \<open>news_bot_clean.py\<close>
  and in \<open>news_bot.py\<close>.
\<close>

theorem C9_filename_filter_idempotent:
  "char_filter (char_filter t) = char_filter t \<and>
   take 50 (char_filter (take 50 (char_filter t))) = take 50 (char_filter t) \<and>
   char_filter (safe_title t) = safe_title t \<and>
   char_filter (safe_title_nb t) = safe_title_nb t"
  using char_filter_idem [of t] cut_filter [of t] char_filter_safe_title [of t]
    char_filter_safe_title_nb [of t]
  by (intro conjI)

section \<open>Properties of the save operations\<close>

lemma py_in_append: 
  assumes "sub \<noteq> []"
  shows "py_in sub (a @ sub @ b)"
proof -
  have "occurs_at (a @ sub @ b) sub (length a)" by (simp add: occurs_at_def)
  moreover have "length a < length (a @ sub @ b)" using assms by (cases sub) auto
  ultimately have "occurs_from (a @ sub @ b) sub 0" unfolding occurs_from_def by auto
  with assms show ?thesis by (simp add: py_in_iff)
qed

lemma clean_markdown_heading: "py_in ''## Conclusion'' (clean_markdown article)"
proof -
  let ?pre = "''# '' @ py_str (get article ''headline'' (PStr ''Generated Article'')) @
     ''\<newline>\<newline>**Generated:** '' @ py_str (get article ''generated_at'' (PStr ''N/A'')) @
     ''  \<newline>**Original Source:** '' @ py_str (get article ''original_source'' (PStr ''N/A'')) @
     ''  \<newline>**Original URL:** '' @ py_str (get article ''original_url'' (PStr ''N/A'')) @
     ''  \<newline>**Word Count:** '' @ py_str (get article ''word_count'' (PStr ''N/A'')) @
     ''  \<newline>\<newline>---\<newline>\<newline>## Summary\<newline>\<newline>'' @ py_str (get article ''lead'' (PStr ''N/A'')) @
     ''\<newline>\<newline>## Article\<newline>\<newline>'' @ py_str (get article ''body'' (PStr ''N/A'')) @ ''\<newline>\<newline>''"
  let ?post = "''\<newline>\<newline>'' @ py_str (get article ''conclusion'' (PStr ''N/A'')) @
     ''\<newline>\<newline>---\<newline>\<newline>*Generated by News Bot using EventRegistry API and Google Gemini AI*\<newline>''"
  have "clean_markdown article = ?pre @ ''## Conclusion'' @ ?post"
    by (simp add: clean_markdown_def)
  then show ?thesis using py_in_append [of "''## Conclusion''" ?pre ?post] by simp
qed


lemma action_save_raises:
  assumes "\<not> has_key article ''error''"
  shows "\<exists>e. action_save_article_to_markdown env article filename w = Inl (e, w)"
  using assms unfolding action_save_article_to_markdown_def
  by (simp split: sum.splits)

lemma clean_save_given:
  "n \<noteq> [] \<Longrightarrow> clean_save_article env a (Some n) w =
     (if \<not> has_key a ''error'' \<and> can_write env n
      then Inr (n, write_file n (Text (clean_markdown a)) w) else Inr ([], w))"
  by (simp add: clean_save_article_def chosen_filename_def)

lemma clean_markdown_example:
  "clean_markdown example_article =
     ''# H\<newline>\<newline>**Generated:** N/A  \<newline>**Original Source:** N/A  \<newline>**Original URL:** N/A  \<newline>**Word Count:** 2  \<newline>\<newline>---\<newline>\<newline>## Summary\<newline>\<newline>L\<newline>\<newline>## Article\<newline>\<newline>B\<newline>\<newline>## Conclusion\<newline>\<newline>\<newline>\<newline>---\<newline>\<newline>*Generated by News Bot using EventRegistry API and Google Gemini AI*\<newline>''"
  by code_simp


text \<open>
  Claim C10. An article record that carries an \<open>error\<close> key is not saved: each of the
  three save operations returns the empty path and leaves the world, and with it the
  files, as they were.
\<close>

theorem C10_failure_not_saved:
  assumes "has_key article ''error''"
  shows "clean_save_article env article filename w = Inr ([], w) \<and>
         action_save_article_to_markdown env article filename w = Inr ([], w) \<and>
         issues_save_article_to_file env article filename w = Inr ([], w)"
  using assms
  by (simp add: clean_save_article_def action_save_article_to_markdown_def
        issues_save_article_to_file_def)

theorem C10_failure_not_saved_witness:
  "has_key failed_article ''error'' \<and>
   clean_save_article example_env failed_article (Some ''a.md'') empty_world
     = Inr ([], empty_world) \<and>
   action_save_article_to_markdown example_env failed_article None empty_world
     = Inr ([], empty_world) \<and>
   issues_save_article_to_file example_env failed_article None empty_world
     = Inr ([], empty_world)"
proof -
  have h: "has_key failed_article ''error''" by (simp add: has_key_def failed_article_def)
  from C10_failure_not_saved [OF h, of example_env "Some ''a.md''" empty_world]
    C10_failure_not_saved [OF h, of example_env None empty_world] h
  show ?thesis by simp
qed

text \<open>
  Claim C1 does not hold of the code. For every article without an \<open>error\<close> key,
  \<open>save_article\<close> of \<open>news_bot_clean.py\<close> writes the document \<open>clean_markdown\<close> when the
  file can be written, and that document contains the heading \<open>## Conclusion\<close> whatever
  the conclusion is, an empty one included; \<open>save_article_to_markdown\<close> of
  \<open>news_bot_action.py\<close> raises for every such article and leaves the world as it was, so
  it renders no document at all.
\<close>

theorem C1_conclusion_heading:
  "(filename \<noteq> [] \<and> \<not> has_key article ''error'' \<and> can_write env filename \<longrightarrow>
      clean_save_article env article (Some filename) w
        = Inr (filename, write_file filename (Text (clean_markdown article)) w)) \<and>
   py_in ''## Conclusion'' (clean_markdown article) \<and>
   (\<not> has_key article ''error'' \<longrightarrow>
      (\<exists>e. action_save_article_to_markdown env article given w = Inl (e, w)))"
  using clean_save_given [of filename env article w] clean_markdown_heading [of article]
    action_save_raises [of article env given w]
  by simp

theorem C1_conclusion_heading_witness:
  "get example_article ''conclusion'' (PStr ''N/A'') = PStr [] \<and>
   \<not> has_key example_article ''error'' \<and> can_write example_env ''a.md'' \<and>
   clean_save_article example_env example_article (Some ''a.md'') empty_world
     = Inr (''a.md'', write_file ''a.md'' (Text (clean_markdown example_article)) empty_world) \<and>
   py_in ''## Conclusion'' (clean_markdown example_article) \<and>
   action_save_article_to_markdown example_env example_article (Some ''a.md'') empty_world
     = Inl (NameError ''name 'conclusion_section' is not defined'', empty_world)"
proof -
  have c: "get example_article ''conclusion'' (PStr ''N/A'') = PStr []"
    by (simp add: example_article_def get_def)
  have h: "\<not> has_key example_article ''error''" by (simp add: has_key_def example_article_def)
  have cw: "can_write example_env ''a.md''" by (simp add: example_env_def)
  have t: "get example_article ''tags'' (PList []) = PList [''x'']"
    by (simp add: example_article_def get_def)
  have a: "action_save_article_to_markdown example_env example_article (Some ''a.md'') empty_world
     = Inl (NameError ''name 'conclusion_section' is not defined'', empty_world)"
    using h by (simp add: action_save_article_to_markdown_def chosen_filename_def t)
  from C1_conclusion_heading [of "''a.md''" example_article example_env empty_world "Some ''a.md''"]
    c h cw a
  show ?thesis by simp
qed

end
